theory Spec2Isabelle
  imports
    Main
    "HOL-Library.Sublist"
    "HOL-Library.Word"
    "HOL-Library.Char_ord"
    "HOL-Library.List_Lexorder"
    "HOL-Library.AList"
begin

section \<open>The rhc collector: definitions, collection and the run pipeline\<close>

text \<open>
  A shallow embedding of \<^verbatim>\<open>collector.go\<close> (package \<^verbatim>\<open>insights\<close>) and of the
  \<^verbatim>\<open>run\<close> action of \<^verbatim>\<open>cmd/rhc-collector.go\<close>. The Go code works on the file
  system, the clock, the logger and a subprocess; all of these are made explicit: every
  function takes a \<open>world\<close> and returns its result together with the new world. What the
  code calls but does not define (the TOML decoder, the subprocess, \<^verbatim>\<open>Compress\<close>,
  \<^verbatim>\<open>Upload\<close>) is a field of the record \<open>sys\<close> and is left arbitrary in every theorem.
\<close>

subsection \<open>Strings: \<^verbatim>\<open>strings.Split\<close>, \<^verbatim>\<open>strconv.FormatInt\<close>, \<^verbatim>\<open>strconv.ParseInt\<close>\<close>

text \<open>
  \<^verbatim>\<open>strings.Split(s, sep)\<close> for a separator of one byte: the loop of \<^verbatim>\<open>genSplit\<close> cuts
  \<open>s\<close> at every occurrence of the separator and appends the rest at the end, so the result
  has one more element than there are separators. \<open>tok\<close> is the piece read so far.
\<close>

fun genSplit :: "char \<Rightarrow> string \<Rightarrow> string \<Rightarrow> string list" where
  "genSplit sep tok [] = [tok]"
| "genSplit sep tok (c # cs) =
     (if c = sep then tok # genSplit sep [] cs else genSplit sep (tok @ [c]) cs)"

definition strings_Split :: "string \<Rightarrow> char \<Rightarrow> string list" where
  "strings_Split s sep = genSplit sep [] s"

text \<open>Decimal digits. \<open>48\<close> is the code of the character \<^verbatim>\<open>0\<close>.\<close>

definition digit_of :: "nat \<Rightarrow> char" where
  "digit_of d = char_of (48 + d)"

definition digit_val :: "char \<Rightarrow> nat option" where
  "digit_val c =
     (let k = (of_char c :: nat) in if 48 \<le> k \<and> k \<le> 57 then Some (k - 48) else None)"

fun FormatUint :: "nat \<Rightarrow> string" where
  "FormatUint n =
     (if 10 \<le> n then FormatUint (n div 10) @ [digit_of (n mod 10)] else [digit_of n])"

declare FormatUint.simps [simp del]

text \<open>\<^verbatim>\<open>strconv.FormatInt(i, 10)\<close>.\<close>

definition FormatInt :: "int \<Rightarrow> string" where
  "FormatInt i = (if i < 0 then CHR ''-'' # FormatUint (nat (- i)) else FormatUint (nat i))"

text \<open>
  \<^verbatim>\<open>strconv.ParseInt(s, 10, 64)\<close>: an optional sign, then at least one decimal digit and
  nothing else (with an explicit base no underscore is accepted); the value has to fit a
  signed 64-bit integer. \<open>None\<close> stands for the \<^verbatim>\<open>*NumError\<close> (syntax or range).
\<close>

fun parse_digits :: "int \<Rightarrow> string \<Rightarrow> int option" where
  "parse_digits acc [] = Some acc"
| "parse_digits acc (c # cs) =
     (case digit_val c of None \<Rightarrow> None | Some d \<Rightarrow> parse_digits (acc * 10 + int d) cs)"

definition ParseUint :: "string \<Rightarrow> int option" where
  "ParseUint s = (if s = [] then None else parse_digits 0 s)"

definition ParseInt :: "string \<Rightarrow> int option" where
  "ParseInt s =
     (case s of
        [] \<Rightarrow> None
      | c # cs \<Rightarrow>
          (let neg = (c = CHR ''-'');
               body = (if c = CHR ''+'' \<or> c = CHR ''-'' then cs else s)
           in case ParseUint body of
                None \<Rightarrow> None
              | Some u \<Rightarrow>
                  if \<not> neg \<and> 2 ^ 63 \<le> u then None
                  else if neg \<and> 2 ^ 63 < u then None
                  else Some (if neg then - u else u)))"

subsection \<open>Paths\<close>

text \<open>
  A path is kept in resolved form: the list of the components of the absolute, cleaned
  path, so \<open>[]\<close> is the root and \<open>[''tmp'', ''x'']\<close> is \<^verbatim>\<open>/tmp/x\<close>. The three directories
  of the package (\<^verbatim>\<open>CONFIGURATIONS_DIR\<close>, \<^verbatim>\<open>COLLECTIONS_DIR\<close>, \<^verbatim>\<open>CACHE_DIR\<close>) are given
  in this form. \<open>filepath_Join dir s\<close> is \<^verbatim>\<open>filepath.Abs(filepath.Join(dir, s))\<close> for such a
  directory and a string \<open>s\<close> of the program: \<^verbatim>\<open>filepath.Clean\<close> drops empty components and
  \<^verbatim>\<open>.\<close>, and \<^verbatim>\<open>..\<close> removes the component before it (the root is its own parent).
\<close>

type_synonym path = "string list"

fun clean_onto :: "path \<Rightarrow> string list \<Rightarrow> path" where
  "clean_onto base [] = base"
| "clean_onto base (c # cs) =
     (if c = [] \<or> c = ''.'' then clean_onto base cs
      else if c = ''..'' then clean_onto (butlast base) cs
      else clean_onto (base @ [c]) cs)"

definition filepath_Join :: "path \<Rightarrow> string \<Rightarrow> path" where
  "filepath_Join dir s = clean_onto dir (strings_Split s CHR ''/'')"

text \<open>The text of a path, as it is handed to the subprocess in its environment.\<close>

definition path_str :: "path \<Rightarrow> string" where
  "path_str p = (if p = [] then ''/'' else concat (map (\<lambda>c. CHR ''/'' # c) p))"

subsection \<open>The world: file system, clock and log\<close>

datatype node = File string | Dir

datatype errno = ENOENT | ENOTDIR | EISDIR | ENOTEMPTY | EACCES | EBUSY | ENOSPC

text \<open>
  The errors the package returns, one constructor for each place that makes one.
  \<open>CouldNotRunCollector\<close> carries the text of the error of \<^verbatim>\<open>cmd.Run()\<close>, which
  \<^verbatim>\<open>fmt.Errorf("could not run collector: %v", err)\<close> formats into the message.
  \<open>PathError\<close> is the \<^verbatim>\<open>*fs.PathError\<close> of the \<^verbatim>\<open>os\<close> package, \<open>NumError\<close> the error of
  \<^verbatim>\<open>strconv.ParseInt\<close>, \<open>Foreign\<close> an error of \<^verbatim>\<open>Compress\<close> or \<^verbatim>\<open>Upload\<close>,
  \<open>ErrBadPattern\<close> the error of \<^verbatim>\<open>filepath.Glob\<close> for a malformed pattern, and
  \<open>IndexOutOfRange\<close> the run-time panic of indexing a slice outside its bounds.
\<close>

datatype error =
    NoSuchCollector
  | CannotReadConfiguration path
  | CannotParseConfiguration
  | ConfigurationDirNotFound path
  | CannotScan path
  | CannotCreateCollectorDirectory
  | CouldNotRunCollector string
  | PathError errno path
  | NumError string
  | Foreign string
  | ErrBadPattern
  | IndexOutOfRange

text \<open>
  The log: one constructor for each call of \<^verbatim>\<open>slog.Error\<close>, \<^verbatim>\<open>slog.Warn\<close> and
  \<^verbatim>\<open>log.Printf\<close> in the two files, with the values it is given. Messages of level Debug
  are not recorded.
\<close>

datatype logrec =
    Error_no_such_collector path
  | Error_cannot_read_configuration path
  | Error_cannot_parse_configuration path
  | Printf_configuration_directory_not_found path
  | Printf_cannot_scan path
  | Printf_malformed_skipping path error
  | Error_cannot_create_collector_directory string
  | Error_could_not_run_collector string string
  | Error_cannot_update_collection_timestamp string error
  | Warn_cannot_parse_timestamp path
  | Error_could_not_find_collector error
  | Warn_didnt_wipe_temporary_directory path errno
  | Warn_did_not_wipe_archive path errno

text \<open>
  \<^item> \<open>fs\<close> lists the entries of the file system.
  \<^item> \<open>readonly\<close>: the paths at which the system refuses to create, overwrite or remove an
    entry.
  \<^item> \<open>unlistable\<close>: the directories that the process may enter and not list (search
    permission without read permission). The files in them can be opened by name.
  \<^item> \<open>faulty\<close>: the paths at which writing fails once the file is open, each with the
    number of bytes that are written before the device is full.
  \<^item> \<open>clock\<close> is the wall clock, in nanoseconds since the Unix epoch, and \<open>mono\<close> the
    monotonic clock, in nanoseconds; \<^verbatim>\<open>time.Now()\<close> reads both, \<^verbatim>\<open>Unix()\<close> uses the
    first and \<^verbatim>\<open>time.Since\<close> the second.
  \<^item> \<open>logged\<close> is the log so far.
\<close>

record world =
  fs :: "(path \<times> node) list"
  readonly :: "path list"
  unlistable :: "path list"
  faulty :: "(path \<times> nat) list"
  clock :: int
  mono :: int
  logged :: "logrec list"

definition emit :: "logrec \<Rightarrow> world \<Rightarrow> world" where
  "emit r w = w\<lparr>logged := logged w @ [r]\<rparr>"

text \<open>\<^verbatim>\<open>time.Now().Unix()\<close>: whole seconds.\<close>

definition Unix :: "world \<Rightarrow> int" where
  "Unix w = clock w div 1000000000"

subsection \<open>The operations of package \<^verbatim>\<open>os\<close>\<close>

text \<open>The root always exists; below it the first entry for a path counts.\<close>

definition lookup :: "world \<Rightarrow> path \<Rightarrow> node option" where
  "lookup w p = (if p = [] then Some Dir else map_of (fs w) p)"

definition is_file :: "node option \<Rightarrow> bool" where
  "is_file n = (case n of Some (File _) \<Rightarrow> True | _ \<Rightarrow> False)"

text \<open>
  \<^verbatim>\<open>os.Stat\<close>: a path below a regular file fails with \<open>ENOTDIR\<close> (for which
  \<^verbatim>\<open>os.IsNotExist\<close> is false), a missing entry with \<open>ENOENT\<close>.
\<close>

definition os_Stat :: "world \<Rightarrow> path \<Rightarrow> errno + node" where
  "os_Stat w p =
     (if \<exists>q \<in> set (butlast (prefixes p)). is_file (lookup w q) then Inl ENOTDIR
      else case lookup w p of None \<Rightarrow> Inl ENOENT | Some n \<Rightarrow> Inr n)"

definition os_ReadFile :: "world \<Rightarrow> path \<Rightarrow> errno + string" where
  "os_ReadFile w p =
     (case os_Stat w p of
        Inl e \<Rightarrow> Inl e
      | Inr Dir \<Rightarrow> Inl EISDIR
      | Inr (File s) \<Rightarrow> Inr s)"

definition path_exists :: "world \<Rightarrow> path \<Rightarrow> bool" where
  "path_exists w p = (case os_Stat w p of Inl _ \<Rightarrow> False | Inr _ \<Rightarrow> True)"

text \<open>
  \<^verbatim>\<open>os.WriteFile\<close> opens the file, which creates or truncates it, and then writes the
  data; the directory above the file has to exist. When the file cannot be opened nothing
  changes. When the device is full before all the data is written, the file holds what
  has been written until then, nothing of what it held before, and \<open>ENOSPC\<close> is
  returned.
\<close>

definition os_WriteFile :: "world \<Rightarrow> path \<Rightarrow> string \<Rightarrow> errno option \<times> world" where
  "os_WriteFile w p s =
     (case os_Stat w (butlast p) of
        Inl e \<Rightarrow> (Some e, w)
      | Inr (File _) \<Rightarrow> (Some ENOTDIR, w)
      | Inr Dir \<Rightarrow>
          if lookup w p = Some Dir then (Some EISDIR, w)
          else if p \<in> set (readonly w) then (Some EACCES, w)
          else case map_of (faulty w) p of
            None \<Rightarrow> (None, w\<lparr>fs := AList.update p (File s) (fs w)\<rparr>)
          | Some k \<Rightarrow>
              if k < length s
              then (Some ENOSPC, w\<lparr>fs := AList.update p (File (take k s)) (fs w)\<rparr>)
              else (None, w\<lparr>fs := AList.update p (File s) (fs w)\<rparr>))"

text \<open>
  \<^verbatim>\<open>os.MkdirAll\<close> goes down the path and creates every directory that is missing; it
  stops at a component that is a regular file or that may not be created, and leaves what
  it has created until then. \<open>q\<close> is the part of the path already walked.
\<close>

fun mkdir_from :: "path \<Rightarrow> string list \<Rightarrow> world \<Rightarrow> errno option \<times> world" where
  "mkdir_from q [] w = (None, w)"
| "mkdir_from q (c # cs) w =
     (case lookup w (q @ [c]) of
        Some Dir \<Rightarrow> mkdir_from (q @ [c]) cs w
      | Some (File _) \<Rightarrow> (Some ENOTDIR, w)
      | None \<Rightarrow>
          if q @ [c] \<in> set (readonly w) then (Some EACCES, w)
          else mkdir_from (q @ [c]) cs (w\<lparr>fs := fs w @ [(q @ [c], Dir)]\<rparr>))"

definition os_MkdirAll :: "world \<Rightarrow> path \<Rightarrow> errno option \<times> world" where
  "os_MkdirAll w p = mkdir_from [] p w"

definition has_children :: "world \<Rightarrow> path \<Rightarrow> bool" where
  "has_children w p = (\<exists>q \<in> fst ` set (fs w). q \<noteq> [] \<and> butlast q = p)"

text \<open>\<^verbatim>\<open>os.Remove\<close>: one file, or one empty directory.\<close>

definition os_Remove :: "world \<Rightarrow> path \<Rightarrow> errno option \<times> world" where
  "os_Remove w p =
     (if p = [] then (Some EBUSY, w)
      else case os_Stat w p of
        Inl e \<Rightarrow> (Some e, w)
      | Inr n \<Rightarrow>
          if p \<in> set (readonly w) then (Some EACCES, w)
          else if n = Dir \<and> has_children w p then (Some ENOTEMPTY, w)
          else (None, w\<lparr>fs := filter (\<lambda>e. fst e \<noteq> p) (fs w)\<rparr>))"

text \<open>
  \<^verbatim>\<open>os.RemoveAll\<close> removes the path and everything below it, and returns \<^verbatim>\<open>nil\<close> when
  nothing is there. An entry that may not be removed stays, and with it the directories
  above it; the rest is removed all the same and the error is returned. (For the empty
  string \<^verbatim>\<open>os.RemoveAll\<close> returns \<^verbatim>\<open>nil\<close> at once; the empty string is not a path of this
  model, see \<open>doRun\<close>.)
\<close>

definition pinned :: "world \<Rightarrow> path \<Rightarrow> bool" where
  "pinned w q = (\<exists>r \<in> set (readonly w). prefix q r \<and> r \<in> fst ` set (fs w))"

definition os_RemoveAll :: "world \<Rightarrow> path \<Rightarrow> errno option \<times> world" where
  "os_RemoveAll w p =
     (let stuck = (\<exists>q \<in> fst ` set (fs w). prefix p q \<and> pinned w q);
          w' = w\<lparr>fs := filter (\<lambda>e. \<not> prefix p (fst e) \<or> pinned w (fst e)) (fs w)\<rparr>
      in (if stuck then Some EACCES else None, w'))"

text \<open>
  The names in a directory, sorted, as \<^verbatim>\<open>Readdirnames\<close> followed by \<^verbatim>\<open>sort.Strings\<close>
  gives them in \<^verbatim>\<open>filepath.Glob\<close>.
\<close>

definition Readdirnames :: "world \<Rightarrow> path \<Rightarrow> string list" where
  "Readdirnames w d =
     sort (remdups (map (\<lambda>e. last (fst e)) (filter (\<lambda>e. fst e \<noteq> [] \<and> butlast (fst e) = d) (fs w))))"

text \<open>
  The function \<^verbatim>\<open>glob(dir, "*", matches)\<close> inside \<^verbatim>\<open>filepath.Glob\<close>: the entries of one
  directory, every name of which matches \<^verbatim>\<open>*\<close>, names that start with a dot too. What
  is no directory, or is a directory that cannot be opened and read, gives no match and
  no error.
\<close>

definition glob_dir :: "world \<Rightarrow> path \<Rightarrow> path list" where
  "glob_dir w dir =
     (case os_Stat w dir of
        Inr Dir \<Rightarrow>
          if dir \<in> set (unlistable w) then []
          else map (\<lambda>n. dir @ [n]) (Readdirnames w dir)
      | _ \<Rightarrow> [])"

text \<open>The pattern characters of \<^verbatim>\<open>filepath.Match\<close>: \<^verbatim>\<open>*\<close>, \<^verbatim>\<open>?\<close>, \<^verbatim>\<open>[\<close> and the backslash.\<close>

definition hasMeta :: "string \<Rightarrow> bool" where
  "hasMeta s = (\<exists>c \<in> set s. c = CHR ''*'' \<or> c = CHR ''?'' \<or> c = CHR ''['' \<or> c = CHR 0x5C)"

subsection \<open>Collector definitions (\<^verbatim>\<open>collector.go\<close>)\<close>

text \<open>The struct \<^verbatim>\<open>Collector\<close>; \<^verbatim>\<open>uint\<close> is 64 bits wide.\<close>

record Collector =
  Meta_ID :: string
  Meta_Name :: string
  Meta_Feature :: string
  Exec_Command :: string
  Exec_ContentType :: string
  Exec_UID :: "64 word"
  Exec_GID :: "64 word"
  Systemd_Service :: string
  Systemd_Timer :: string
  Generated_Path :: path

text \<open>How a subprocess ends: with an exit status, or with another error of \<^verbatim>\<open>cmd.Run()\<close>
  (the executable is not found or may not be started, the process is killed by a signal),
  given by its text.\<close>

datatype outcome = Exit nat | Failed string

text \<open>
  What the package uses and does not define.
  \<^item> The three directories, variables of the package.
  \<^item> \<open>toml_Decode\<close>: \<^verbatim>\<open>toml.Decode\<close> into a zero \<^verbatim>\<open>Collector\<close>; \<open>None\<close> is its error. A key
    that is absent leaves the zero value of its field.
  \<^item> \<open>glob_meta\<close>: what \<^verbatim>\<open>filepath.Glob\<close> makes of the name of a directory that has a
    pattern character in it: the entries whose names match it, or the error of a malformed
    pattern. The matching of names is not part of the model.
  \<^item> \<open>os_Environ\<close>: the environment of the process.
  \<^item> \<open>process name args env\<close>: the subprocess, from the lookup of the executable to its
    end; it returns how it ended and what it wrote to standard error (standard output is
    captured as well and never read), and it may change the world in any way.
  \<^item> \<open>Compress dir\<close> and \<open>Upload archive content_type\<close>: functions of the package that the
    \<^verbatim>\<open>run\<close> action calls; they are not in the two files.
\<close>

record sys =
  CONFIGURATIONS_DIR :: path
  COLLECTIONS_DIR :: path
  CACHE_DIR :: path
  toml_Decode :: "string \<Rightarrow> Collector option"
  glob_meta :: "world \<Rightarrow> path \<Rightarrow> error + path list"
  os_Environ :: "string list"
  process :: "string \<Rightarrow> string list \<Rightarrow> string list \<Rightarrow> world \<Rightarrow> (outcome \<times> string) \<times> world"
  Compress :: "path \<Rightarrow> world \<Rightarrow> (error + path) \<times> world"
  Upload :: "path \<Rightarrow> string \<Rightarrow> world \<Rightarrow> error option \<times> world"

text \<open>
  \<^verbatim>\<open>filepath.Glob(filepath.Join(dir, "*"))\<close>. The whole path is a pattern. When the name
  of the directory has no pattern character, the matches are the entries of that
  directory. When it has one, \<^verbatim>\<open>Glob\<close> first expands the name of the directory, and the
  matches are the entries of every directory it finds; a malformed pattern is an error.
\<close>

definition filepath_Glob :: "sys \<Rightarrow> world \<Rightarrow> path \<Rightarrow> error + path list" where
  "filepath_Glob S w dir =
     (if \<exists>c \<in> set dir. hasMeta c
      then (case glob_meta S w dir of
              Inl e \<Rightarrow> Inl e
            | Inr dirs \<Rightarrow> Inr (concat (map (glob_dir w) dirs)))
      else Inr (glob_dir w dir))"

definition newCollectorFromConfiguration ::
  "sys \<Rightarrow> path \<Rightarrow> string \<Rightarrow> world \<Rightarrow> (error + Collector) \<times> world" where
  "newCollectorFromConfiguration S path config w =
     (case toml_Decode S config of
        None \<Rightarrow> (Inl CannotParseConfiguration, emit (Error_cannot_parse_configuration path) w)
      | Some cc \<Rightarrow> (Inr (cc\<lparr>Generated_Path := path\<rparr>), w))"

definition newCollectorFromPath :: "sys \<Rightarrow> path \<Rightarrow> world \<Rightarrow> (error + Collector) \<times> world" where
  "newCollectorFromPath S path w =
     (case os_Stat w path of
        Inl _ \<Rightarrow> (Inl NoSuchCollector, emit (Error_no_such_collector path) w)
      | Inr _ \<Rightarrow>
          (case os_ReadFile w path of
             Inl _ \<Rightarrow>
               (Inl (CannotReadConfiguration path), emit (Error_cannot_read_configuration path) w)
           | Inr data \<Rightarrow> newCollectorFromConfiguration S path data w))"

definition ensureCollectorsDirectory :: "sys \<Rightarrow> world \<Rightarrow> error option \<times> world" where
  "ensureCollectorsDirectory S w =
     (if os_Stat w (CONFIGURATIONS_DIR S) = Inl ENOENT
      then (Some (ConfigurationDirNotFound (CONFIGURATIONS_DIR S)),
            emit (Printf_configuration_directory_not_found (CONFIGURATIONS_DIR S)) w)
      else (None, w))"

definition GetCollector :: "sys \<Rightarrow> string \<Rightarrow> world \<Rightarrow> (error + Collector) \<times> world" where
  "GetCollector S ident w =
     (case ensureCollectorsDirectory S w of
        (Some err, w1) \<Rightarrow> (Inl err, w1)
      | (None, w1) \<Rightarrow>
          newCollectorFromPath S (filepath_Join (CONFIGURATIONS_DIR S) (ident @ ''.toml'')) w1)"

text \<open>The loop of \<^verbatim>\<open>GetCollectors\<close> over the files found; \<open>collectors\<close> is the slice built so far.\<close>

fun load_each :: "sys \<Rightarrow> path list \<Rightarrow> Collector list \<Rightarrow> world \<Rightarrow> Collector list \<times> world" where
  "load_each S [] collectors w = (collectors, w)"
| "load_each S (file # files) collectors w =
     (case newCollectorFromPath S file w of
        (Inl err, w1) \<Rightarrow> load_each S files collectors (emit (Printf_malformed_skipping file err) w1)
      | (Inr config, w1) \<Rightarrow> load_each S files (collectors @ [config]) w1)"

definition GetCollectors :: "sys \<Rightarrow> world \<Rightarrow> (error + Collector list) \<times> world" where
  "GetCollectors S w =
     (case ensureCollectorsDirectory S w of
        (Some err, w1) \<Rightarrow> (Inl err, w1)
      | (None, w1) \<Rightarrow>
          (case filepath_Glob S w1 (CONFIGURATIONS_DIR S) of
             Inl _ \<Rightarrow>
               (Inl (CannotScan (CONFIGURATIONS_DIR S)),
                emit (Printf_cannot_scan (CONFIGURATIONS_DIR S)) w1)
           | Inr configurations \<Rightarrow>
               (case load_each S configurations [] w1 of
                  (collectors, w2) \<Rightarrow> (Inr collectors, w2))))"

subsection \<open>Collection and the record of the last run (\<^verbatim>\<open>collector.go\<close>)\<close>

definition collection_directory :: "sys \<Rightarrow> Collector \<Rightarrow> world \<Rightarrow> path" where
  "collection_directory S collector w =
     filepath_Join (COLLECTIONS_DIR S) (Meta_ID collector @ ''-'' @ FormatInt (Unix w))"

text \<open>The permission bits \<^verbatim>\<open>0750\<close> of the new directory are not part of the model.\<close>

definition generateCollectionDirectory ::
  "sys \<Rightarrow> Collector \<Rightarrow> world \<Rightarrow> (error + path) \<times> world" where
  "generateCollectionDirectory S collector w =
     (let path = collection_directory S collector w
      in case os_MkdirAll w path of
           (Some _, w1) \<Rightarrow>
             (Inl CannotCreateCollectorDirectory,
              emit (Error_cannot_create_collector_directory (Meta_ID collector)) w1)
         | (None, w1) \<Rightarrow> (Inr path, w1))"

definition last_run_file :: "sys \<Rightarrow> Collector \<Rightarrow> path" where
  "last_run_file S c = filepath_Join (CACHE_DIR S) (Meta_ID c @ ''.last-run'')"

definition SetLastRun :: "sys \<Rightarrow> Collector \<Rightarrow> world \<Rightarrow> error option \<times> world" where
  "SetLastRun S c w =
     (let now = FormatInt (Unix w)
      in case os_WriteFile w (last_run_file S c) now of
           (Some e, w1) \<Rightarrow> (Some (PathError e (last_run_file S c)), w1)
         | (None, w1) \<Rightarrow> (None, w1))"

text \<open>The result is \<^verbatim>\<open>time.Unix(i, 0)\<close>, given as the number \<open>i\<close> of seconds.\<close>

definition GetLastRun :: "sys \<Rightarrow> Collector \<Rightarrow> world \<Rightarrow> (error + int) \<times> world" where
  "GetLastRun S c w =
     (let file = last_run_file S c
      in case os_ReadFile w file of
           Inl e \<Rightarrow> (Inl (PathError e file), w)
         | Inr raw \<Rightarrow>
             (case ParseInt raw of
                None \<Rightarrow> (Inl (NumError raw), emit (Warn_cannot_parse_timestamp file) w)
              | Some i \<Rightarrow> (Inr i, w)))"

text \<open>
  \<^verbatim>\<open>exec.Command(name, args...)\<close> followed by \<^verbatim>\<open>cmd.Run()\<close>, with the environment and the
  two buffers set in between. The result is the text of the error of \<^verbatim>\<open>Run\<close> (\<open>None\<close>
  for \<^verbatim>\<open>nil\<close>) and the content of the buffer of standard error. With an empty name
  \<^verbatim>\<open>exec.Command\<close> looks nothing up and \<^verbatim>\<open>Run\<close> fails before any process is started; a
  process that ends with a status other than 0 gives an \<^verbatim>\<open>*exec.ExitError\<close>.
\<close>

definition cmd_Run ::
  "sys \<Rightarrow> string \<Rightarrow> string list \<Rightarrow> string list \<Rightarrow> world \<Rightarrow> (string option \<times> string) \<times> world" where
  "cmd_Run S name args env w =
     (if name = [] then ((Some ''exec: no command'', []), w)
      else case process S name args env w of
             ((Exit n, stderr), w1) \<Rightarrow>
               ((if n = 0 then None else Some (''exit status '' @ FormatUint n), stderr), w1)
           | ((Failed text, stderr), w1) \<Rightarrow> ((Some text, stderr), w1))"

text \<open>
  \<^verbatim>\<open>Collect\<close>, called \<open>Collect_go\<close> here because HOL has a constant of that name.
  On an error Go returns the empty string with it; here the result is the error alone.
\<close>

definition Collect_go :: "sys \<Rightarrow> Collector \<Rightarrow> world \<Rightarrow> (error + path) \<times> world" where
  "Collect_go S collector w =
     (case strings_Split (Exec_Command collector) CHR '' '' of
        [] \<Rightarrow> (Inl IndexOutOfRange, w)
      | name # args \<Rightarrow>
          (case generateCollectionDirectory S collector w of
             (Inl err, w1) \<Rightarrow> (Inl err, w1)
           | (Inr tempdir, w1) \<Rightarrow>
               (let env = os_Environ S @ [''COLLECTION_DIRECTORY='' @ path_str tempdir]
                in case cmd_Run S name args env w1 of
                     ((Some err, stderr), w2) \<Rightarrow>
                       (Inl (CouldNotRunCollector err),
                        emit (Error_could_not_run_collector err stderr) w2)
                   | ((None, stderr), w2) \<Rightarrow>
                       (case SetLastRun S collector w2 of
                          (Some err, w3) \<Rightarrow>
                            (Inr tempdir,
                             emit (Error_cannot_update_collection_timestamp
                                     (Meta_ID collector) err) w3)
                        | (None, w3) \<Rightarrow> (Inr tempdir, w3)))))"

subsection \<open>The \<^verbatim>\<open>run\<close> action (\<^verbatim>\<open>cmd/rhc-collector.go\<close>)\<close>

record CollectorInfoDTO =
  dto_ID :: string
  dto_Name :: string
  dto_Feature :: string
  dto_Command :: string
  dto_ContentType :: string
  dto_UID :: "64 word"
  dto_GID :: "64 word"
  dto_DefinitionPath :: path
  dto_SystemdService :: string
  dto_SystemdTimer :: string

text \<open>\<^verbatim>\<open>NewCollectorInfoDTO\<close> returns \<^verbatim>\<open>nil\<close> as its error on every path.\<close>

definition NewCollectorInfoDTO :: "Collector \<Rightarrow> CollectorInfoDTO" where
  "NewCollectorInfoDTO collector =
     \<lparr>dto_ID = Meta_ID collector,
      dto_Name = Meta_Name collector,
      dto_Feature = Meta_Feature collector,
      dto_Command = Exec_Command collector,
      dto_ContentType = Exec_ContentType collector,
      dto_UID = Exec_UID collector,
      dto_GID = Exec_GID collector,
      dto_DefinitionPath = Generated_Path collector,
      dto_SystemdService = Systemd_Service collector,
      dto_SystemdTimer = Systemd_Timer collector\<rparr>"

text \<open>
  The summary of a run. The two durations are kept in nanoseconds, as the
  \<^verbatim>\<open>time.Duration\<close> that \<^verbatim>\<open>time.Since\<close> returns from the monotonic clock and whose
  \<^verbatim>\<open>Seconds()\<close> the Go field holds; \<open>run_KeepPath\<close> is \<open>None\<close>
  where the Go field is the empty string.
\<close>

record CollectorRunDTO =
  run_Collector :: CollectorInfoDTO
  run_CollectDuration :: int
  run_UploadDuration :: int
  run_Keep :: bool
  run_KeepPath :: "path option"
  run_Upload :: bool

text \<open>
  The first deferred function of \<^verbatim>\<open>doRun\<close>. \<open>tempdir\<close> is \<open>None\<close> when \<^verbatim>\<open>Collect\<close> has
  returned the empty string, for which \<^verbatim>\<open>os.RemoveAll\<close> does nothing and returns \<^verbatim>\<open>nil\<close>.
\<close>

definition wipe_tempdir :: "bool \<Rightarrow> path option \<Rightarrow> world \<Rightarrow> world" where
  "wipe_tempdir keep tempdir w =
     (if keep then w
      else case tempdir of
             None \<Rightarrow> w
           | Some dir \<Rightarrow>
               (case os_RemoveAll w dir of
                  (None, w1) \<Rightarrow> w1
                | (Some e, w1) \<Rightarrow> emit (Warn_didnt_wipe_temporary_directory dir e) w1))"

text \<open>The second deferred function, registered once \<^verbatim>\<open>Compress\<close> has returned an archive.\<close>

definition wipe_archive :: "path \<Rightarrow> world \<Rightarrow> world" where
  "wipe_archive archive w =
     (case os_Remove w archive of
        (None, w1) \<Rightarrow> w1
      | (Some e, w1) \<Rightarrow> emit (Warn_did_not_wipe_archive archive e) w1)"

text \<open>
  \<^verbatim>\<open>doRun\<close> for the flags \<^verbatim>\<open>--keep\<close> and \<^verbatim>\<open>--no-upload\<close> and the argument \<open>ident\<close>. The
  deferred functions run when the function returns, the last one registered first; they
  assign to a local \<^verbatim>\<open>err\<close> only, so the value returned is the one of the \<^verbatim>\<open>return\<close>
  statement. Both \<^verbatim>\<open>printRunJSON\<close> and \<^verbatim>\<open>printRunHuman\<close> print the summary and return
  \<^verbatim>\<open>nil\<close>; the model returns the summary.
\<close>

definition doRun ::
  "sys \<Rightarrow> bool \<Rightarrow> bool \<Rightarrow> string \<Rightarrow> world \<Rightarrow> (error + CollectorRunDTO) \<times> world" where
  "doRun S flag_keep flag_no_upload ident w =
     (case GetCollector S ident w of
        (Inl err, w1) \<Rightarrow> (Inl err, emit (Error_could_not_find_collector err) w1)
      | (Inr collector, w1) \<Rightarrow>
          (let collectorInfo = NewCollectorInfoDTO collector;
               keep = (flag_keep \<or> flag_no_upload);
               upload = (\<not> flag_no_upload);
               collectStart = mono w1
           in case Collect_go S collector w1 of
                (Inl err, w2) \<Rightarrow> (Inl err, wipe_tempdir keep None w2)
              | (Inr tempdir, w2) \<Rightarrow>
                  (let collectDelta = mono w2 - collectStart
                   in if upload then
                        (case Compress S tempdir w2 of
                           (Inl err, w3) \<Rightarrow> (Inl err, wipe_tempdir keep (Some tempdir) w3)
                         | (Inr archive, w3) \<Rightarrow>
                             (let uploadSince = mono w3
                              in case Upload S archive (Exec_ContentType collector) w3 of
                                   (Some err, w4) \<Rightarrow>
                                     (Inl err,
                                      wipe_tempdir keep (Some tempdir) (wipe_archive archive w4))
                                 | (None, w4) \<Rightarrow>
                                     (Inr \<lparr>run_Collector = collectorInfo,
                                           run_CollectDuration = collectDelta,
                                           run_UploadDuration = mono w4 - uploadSince,
                                           run_Keep = keep,
                                           run_KeepPath = (if keep then Some tempdir else None),
                                           run_Upload = upload\<rparr>,
                                      wipe_tempdir keep (Some tempdir) (wipe_archive archive w4))))
                      else
                        (Inr \<lparr>run_Collector = collectorInfo,
                              run_CollectDuration = collectDelta,
                              run_UploadDuration = 0,
                              run_Keep = keep,
                              run_KeepPath = (if keep then Some tempdir else None),
                              run_Upload = upload\<rparr>,
                         wipe_tempdir keep (Some tempdir) w2))))"

subsection \<open>A concrete system, for the examples\<close>

text \<open>
  Four definition documents and what \<^verbatim>\<open>toml.Decode\<close> makes of them. The empty document
  is a valid TOML document and leaves every field at its zero value.
\<close>

definition zero_Collector :: Collector where
  "zero_Collector =
     \<lparr>Meta_ID = [], Meta_Name = [], Meta_Feature = [], Exec_Command = [],
      Exec_ContentType = [], Exec_UID = 0, Exec_GID = 0,
      Systemd_Service = [], Systemd_Timer = [], Generated_Path = []\<rparr>"

definition mock_toml :: string where
  "mock_toml = ''[meta]\<newline>id = \"mock\"\<newline>[exec]\<newline>command = \"/bin/true\"\<newline>''"

definition cat_toml :: string where
  "cat_toml = ''[meta]\<newline>id = \"cat\"\<newline>[exec]\<newline>command = \"/bin/cat /x\"\<newline>''"

definition deep_toml :: string where
  "deep_toml = ''[meta]\<newline>id = \"deep\"\<newline>[exec]\<newline>command = \"/bin/true\"\<newline>''"

definition broken_toml :: string where
  "broken_toml = ''[meta''"

definition sample_Decode :: "string \<Rightarrow> Collector option" where
  "sample_Decode s =
     (if s = [] then Some zero_Collector
      else if s = mock_toml
        then Some (zero_Collector\<lparr>Meta_ID := ''mock'', Exec_Command := ''/bin/true''\<rparr>)
      else if s = cat_toml
        then Some (zero_Collector\<lparr>Meta_ID := ''cat'', Exec_Command := ''/bin/cat /x''\<rparr>)
      else if s = deep_toml
        then Some (zero_Collector\<lparr>Meta_ID := ''deep'', Exec_Command := ''/bin/true''\<rparr>)
      else None)"

text \<open>
  Two programs: \<^verbatim>\<open>/bin/true\<close>, which ends with status 0 after a millisecond whatever
  its arguments are, and \<^verbatim>\<open>/bin/cat /x\<close> where \<^verbatim>\<open>/x\<close> does not exist, which ends with
  status 1 and a line on standard error. Nothing else can be started.
\<close>

definition sample_process ::
  "string \<Rightarrow> string list \<Rightarrow> string list \<Rightarrow> world \<Rightarrow> (outcome \<times> string) \<times> world" where
  "sample_process name args env w =
     (if name = ''/bin/true''
        then ((Exit 0, []), w\<lparr>clock := clock w + 1000000, mono := mono w + 1000000\<rparr>)
      else if name = ''/bin/cat'' \<and> args = [''/x''] \<and> lookup w [''x''] = None
        then ((Exit 1, ''/bin/cat: /x: No such file or directory\<newline>''),
              w\<lparr>clock := clock w + 1000000, mono := mono w + 1000000\<rparr>)
      else ((Failed (''fork/exec '' @ name @ '': no such file or directory''), []), w))"

text \<open>
  A packager that writes one file next to the directory, and two uploaders: one that
  accepts every archive and one that has no connection.
\<close>

definition sample_Compress :: "path \<Rightarrow> world \<Rightarrow> (error + path) \<times> world" where
  "sample_Compress dir w =
     (let archive = butlast dir @ [last dir @ ''.tar'']
      in if dir = [] \<or> lookup w dir \<noteq> Some Dir then (Inl (Foreign ''not a directory''), w)
         else case os_WriteFile w archive ''archive'' of
                (Some e, w1) \<Rightarrow> (Inl (PathError e archive), w1)
              | (None, w1) \<Rightarrow> (Inr archive, w1))"

text \<open>
  The one pattern of the examples is the directory name \<^verbatim>\<open>/c[1]\<close>, which matches the
  name \<^verbatim>\<open>/c1\<close> and no other.
\<close>

definition sample_glob :: "world \<Rightarrow> path \<Rightarrow> error + path list" where
  "sample_glob w dir =
     (if dir = [''c[1]''] \<and> lookup w [''c1''] \<noteq> None then Inr [[''c1'']] else Inr [])"

definition sample_sys :: sys where
  "sample_sys =
     \<lparr>CONFIGURATIONS_DIR = [''etc''],
      COLLECTIONS_DIR = [''tmp''],
      CACHE_DIR = [''tmp''],
      toml_Decode = sample_Decode,
      glob_meta = sample_glob,
      os_Environ = [''LANG=C''],
      process = sample_process,
      Compress = sample_Compress,
      Upload = (\<lambda>archive content_type w.
                 (None, w\<lparr>clock := clock w + 2000000, mono := mono w + 2000000\<rparr>))\<rparr>"

text \<open>The same system with the definitions in the directory \<^verbatim>\<open>/c[1]\<close>.\<close>

definition bracket_sys :: sys where
  "bracket_sys = sample_sys\<lparr>CONFIGURATIONS_DIR := [''c[1]'']\<rparr>"

definition offline_sys :: sys where
  "offline_sys =
     sample_sys\<lparr>Upload := (\<lambda>archive content_type w. (Some (Foreign ''connection refused''), w))\<rparr>"

text \<open>
  A system whose wall clock is set back by one second while the command runs for a
  millisecond.
\<close>

definition backstep_sys :: sys where
  "backstep_sys =
     sample_sys\<lparr>process := (\<lambda>name args env w.
       ((Exit 0, []), w\<lparr>clock := clock w - 1000000000, mono := mono w + 1000000\<rparr>))\<rparr>"

text \<open>
  A file system with the two directories, at one and a half seconds after the epoch. The
  directory of the definitions holds four definitions (one of them a copy of
  \<^verbatim>\<open>mock.toml\<close> under another name), a file that is no TOML document, and a directory
  with one more definition in it.
\<close>

definition sample_world :: world where
  "sample_world =
     \<lparr>fs = [([''etc''], Dir), ([''tmp''], Dir),
            ([''etc'', ''mock.toml''], File mock_toml),
            ([''etc'', ''cat.toml''], File cat_toml),
            ([''etc'', ''copy.toml''], File mock_toml),
            ([''etc'', ''empty.toml''], File []),
            ([''etc'', ''broken.toml''], File broken_toml),
            ([''etc'', ''sub''], Dir),
            ([''etc'', ''sub'', ''deep.toml''], File deep_toml)],
      readonly = [],
      unlistable = [],
      faulty = [],
      clock = 1500000000,
      mono = 0,
      logged = []\<rparr>"

text \<open>The same, where the record of the last run of \<^verbatim>\<open>mock\<close> may not be written.\<close>

definition locked_world :: world where
  "locked_world = sample_world\<lparr>readonly := [[''tmp'', ''mock.last-run'']]\<rparr>"

definition mock_Collector :: Collector where
  "mock_Collector =
     zero_Collector\<lparr>Meta_ID := ''mock'', Exec_Command := ''/bin/true'',
                    Generated_Path := [''etc'', ''mock.toml'']\<rparr>"

definition cat_Collector :: Collector where
  "cat_Collector =
     zero_Collector\<lparr>Meta_ID := ''cat'', Exec_Command := ''/bin/cat /x'',
                    Generated_Path := [''etc'', ''cat.toml'']\<rparr>"

text \<open>The sample file system with a record of an earlier run of \<^verbatim>\<open>cat\<close>.\<close>

definition recorded_world :: world where
  "recorded_world =
     sample_world\<lparr>fs := fs sample_world @ [([''tmp'', ''cat.last-run''], File ''7'')]\<rparr>"

text \<open>
  The sample file system with the output directory of a run of \<^verbatim>\<open>mock\<close> earlier in the
  same second, which may not be removed.
\<close>

definition stale_world :: world where
  "stale_world =
     sample_world\<lparr>fs := fs sample_world @ [([''tmp'', ''mock-1''], Dir)],
                  readonly := [[''tmp'', ''mock-1'']]\<rparr>"

text \<open>
  The sample file system where the directory of the definitions can be entered and not
  listed (as with the mode \<^verbatim>\<open>0711\<close> for another user).
\<close>

definition unlistable_world :: world where
  "unlistable_world = sample_world\<lparr>unlistable := [[''etc'']]\<rparr>"

text \<open>The sample file system with a definition in the directory \<^verbatim>\<open>/c[1]\<close>.\<close>

definition bracket_world :: world where
  "bracket_world =
     sample_world\<lparr>fs := fs sample_world @
       [([''c[1]''], Dir), ([''c[1]'', ''mock.toml''], File mock_toml)]\<rparr>"

text \<open>
  The sample file system with a record of an earlier run of \<^verbatim>\<open>mock\<close>, on a device with
  no space left for the data of that file.
\<close>

definition full_world :: world where
  "full_world =
     sample_world\<lparr>fs := fs sample_world @ [([''tmp'', ''mock.last-run''], File ''7'')],
                  faulty := [([''tmp'', ''mock.last-run''], 0)]\<rparr>"


text \<open>A definition whose command is two spaces.\<close>

definition spaces_Collector :: Collector where
  "spaces_Collector = zero_Collector\<lparr>Meta_ID := ''sp'', Exec_Command := ''  ''\<rparr>"

subsection \<open>The words of the specification\<close>

text \<open>
  The specification calls a definition valid when its command ``splits into at least one
  non-empty token''. These are the non-empty tokens of a command, split as \<open>Collect_go\<close>
  splits it.
\<close>

definition nonempty_tokens :: "string \<Rightarrow> string list" where
  "nonempty_tokens command = filter (\<lambda>t. t \<noteq> []) (strings_Split command CHR '' '')"

section \<open>Properties\<close>

subsection \<open>Splitting\<close>

lemma genSplit_nonempty: "genSplit sep tok s \<noteq> []"
  by (induction s arbitrary: tok) auto

lemma strings_Split_nonempty: "strings_Split s sep \<noteq> []"
  by (simp add: strings_Split_def genSplit_nonempty)


lemma cmd_Run_empty_name: "cmd_Run S [] args env w = ((Some ''exec: no command'', []), w)"
  by (simp add: cmd_Run_def)




subsection \<open>Decimal numbers\<close>

lemma digit_val_digit_of: "d < 10 \<Longrightarrow> digit_val (digit_of d) = Some d"
  by (simp add: digit_val_def digit_of_def)

lemma of_char_digit_of: "d < 10 \<Longrightarrow> (of_char (digit_of d) :: nat) = 48 + d"
  by (simp add: digit_of_def)

lemma of_char_signs:
  "of_char CHR ''+'' = (43 :: nat)" "of_char CHR ''-'' = (45 :: nat)"
  "of_char CHR ''/'' = (47 :: nat)"
  by simp_all

lemma digit_of_not_sign:
  "d < 10 \<Longrightarrow> digit_of d \<noteq> CHR ''+'' \<and> digit_of d \<noteq> CHR ''-'' \<and> digit_of d \<noteq> CHR ''/''"
  using of_char_digit_of [of d] of_char_signs by (auto simp del: of_char_eq_iff)

lemma FormatUint_digits: "set (FormatUint n) \<subseteq> digit_of ` {..<10}"
proof (induction n rule: FormatUint.induct)
  case (1 n)
  show ?case
  proof (cases "10 \<le> n")
    case True
    with 1 show ?thesis by (subst FormatUint.simps) auto
  next
    case False
    then show ?thesis by (subst FormatUint.simps) auto
  qed
qed

lemma FormatUint_nonempty: "FormatUint n \<noteq> []"
  by (subst FormatUint.simps) simp

lemma FormatUint_no_slash: "CHR ''/'' \<notin> set (FormatUint n)"
proof
  assume "CHR ''/'' \<in> set (FormatUint n)"
  then obtain d where "d < 10" "CHR ''/'' = digit_of d"
    using FormatUint_digits [of n] by auto
  with digit_of_not_sign [of d] show False by simp
qed

lemma FormatInt_no_slash: "CHR ''/'' \<notin> set (FormatInt i)"
  by (simp add: FormatInt_def FormatUint_no_slash)

lemma FormatInt_nonempty: "FormatInt i \<noteq> []"
  by (simp add: FormatInt_def FormatUint_nonempty)

lemma parse_digits_snoc:
  "parse_digits acc (xs @ [c]) =
     (case parse_digits acc xs of
        None \<Rightarrow> None
      | Some a \<Rightarrow> (case digit_val c of None \<Rightarrow> None | Some d \<Rightarrow> Some (a * 10 + int d)))"
  by (induction xs arbitrary: acc) (auto split: option.splits)

lemma parse_digits_FormatUint: "parse_digits 0 (FormatUint n) = Some (int n)"
proof (induction n rule: FormatUint.induct)
  case (1 n)
  show ?case
  proof (cases "10 \<le> n")
    case True
    have "parse_digits 0 (FormatUint n) =
            parse_digits 0 (FormatUint (n div 10) @ [digit_of (n mod 10)])"
      using True by (subst FormatUint.simps) simp
    also have "\<dots> = Some (int (n div 10) * 10 + int (n mod 10))"
      using 1 [OF True] by (simp add: parse_digits_snoc digit_val_digit_of)
    also have "int (n div 10) * 10 + int (n mod 10) = int n"
      by (simp add: zdiv_int zmod_int)
    finally show ?thesis .
  next
    case False
    then show ?thesis
      by (subst FormatUint.simps) (simp add: digit_val_digit_of)
  qed
qed

lemma ParseUint_FormatUint: "ParseUint (FormatUint n) = Some (int n)"
  by (simp add: ParseUint_def FormatUint_nonempty parse_digits_FormatUint)

lemma FormatUint_hd:
  obtains c cs where "FormatUint n = c # cs" "c \<noteq> CHR ''+''" "c \<noteq> CHR ''-''"
proof -
  obtain c cs where eq: "FormatUint n = c # cs"
    using FormatUint_nonempty [of n] by (cases "FormatUint n") auto
  then have "c \<in> digit_of ` {..<10}"
    using FormatUint_digits [of n] by auto
  then obtain d where "d < 10" "c = digit_of d" by auto
  with digit_of_not_sign [of d] have "c \<noteq> CHR ''+''" "c \<noteq> CHR ''-''" by simp_all
  with eq that show ?thesis by blast
qed

lemma ParseInt_FormatInt:
  assumes "- (2 ^ 63) \<le> i" and "i < 2 ^ 63"
  shows "ParseInt (FormatInt i) = Some i"
proof (cases "i < 0")
  case True
  have "ParseInt (CHR ''-'' # FormatUint (nat (- i))) = Some i"
    using True assms by (simp add: ParseInt_def ParseUint_FormatUint)
  with True show ?thesis by (simp add: FormatInt_def)
next
  case False
  obtain c cs where eq: "FormatUint (nat i) = c # cs" and ns: "c \<noteq> CHR ''+''" "c \<noteq> CHR ''-''"
    by (rule FormatUint_hd)
  have "ParseUint (c # cs) = Some (int (nat i))"
    using ParseUint_FormatUint [of "nat i"] eq by simp
  then have "ParseInt (c # cs) = Some i"
    using False assms ns by (simp add: ParseInt_def)
  with False eq show ?thesis by (simp add: FormatInt_def)
qed

subsection \<open>Paths\<close>

lemma genSplit_no_sep: "sep \<notin> set s \<Longrightarrow> genSplit sep tok s = [tok @ s]"
  by (induction s arbitrary: tok) auto

lemma genSplit_append_no_sep:
  "sep \<notin> set ys \<Longrightarrow>
   genSplit sep tok (xs @ ys) =
     butlast (genSplit sep tok xs) @ [last (genSplit sep tok xs) @ ys]"
  by (induction xs arbitrary: tok) (auto simp: genSplit_no_sep genSplit_nonempty)

lemma clean_onto_snoc:
  "c \<noteq> [] \<Longrightarrow> c \<noteq> ''.'' \<Longrightarrow> c \<noteq> ''..'' \<Longrightarrow>
   clean_onto base (cs @ [c]) = clean_onto base cs @ [c]"
  by (induction cs arbitrary: base) auto

lemma filepath_Join_name:
  "CHR ''/'' \<notin> set name \<Longrightarrow> name \<noteq> [] \<Longrightarrow> name \<noteq> ''.'' \<Longrightarrow> name \<noteq> ''..'' \<Longrightarrow>
   filepath_Join dir name = dir @ [name]"
  by (simp add: filepath_Join_def strings_Split_def genSplit_no_sep)

lemma dash_not_special: "CHR ''-'' \<in> set c \<Longrightarrow> c \<noteq> [] \<and> c \<noteq> ''.'' \<and> c \<noteq> ''..''"
  by auto

lemma filepath_Join_suffix_nonempty:
  assumes "CHR ''/'' \<notin> set ys" and "CHR ''-'' \<in> set ys"
  shows "filepath_Join dir (xs @ ys) \<noteq> []"
proof -
  let ?ts = "genSplit CHR ''/'' [] xs"
  let ?c = "last ?ts @ ys"
  have "CHR ''-'' \<in> set ?c" using assms(2) by simp
  then have c: "?c \<noteq> []" "?c \<noteq> ''.''" "?c \<noteq> ''..''"
    using dash_not_special [of ?c] by blast+
  have "filepath_Join dir (xs @ ys) = clean_onto dir (butlast ?ts @ [?c])"
    using assms(1) by (simp add: filepath_Join_def strings_Split_def genSplit_append_no_sep)
  also have "\<dots> = clean_onto dir (butlast ?ts) @ [?c]"
    using c by (rule clean_onto_snoc)
  finally show ?thesis by simp
qed

lemma collection_directory_not_root: "collection_directory S c w \<noteq> []"
proof -
  have "CHR ''/'' \<notin> set (''-'' @ FormatInt (Unix w))"
    using FormatInt_no_slash by simp
  moreover have "CHR ''-'' \<in> set (''-'' @ FormatInt (Unix w))" by simp
  ultimately show ?thesis
    unfolding collection_directory_def by (rule filepath_Join_suffix_nonempty)
qed

subsection \<open>The file system\<close>

lemma emit_fields [simp]:
  "fs (emit r w) = fs w" "readonly (emit r w) = readonly w" "clock (emit r w) = clock w"
  "logged (emit r w) = logged w @ [r]" "unlistable (emit r w) = unlistable w"
  "faulty (emit r w) = faulty w" "mono (emit r w) = mono w"
  by (simp_all add: emit_def)

lemma lookup_cong: "fs w' = fs w \<Longrightarrow> lookup w' = lookup w"
  by (rule ext) (simp add: lookup_def)

lemma os_Stat_cong: "fs w' = fs w \<Longrightarrow> os_Stat w' p = os_Stat w p"
  using lookup_cong [of w' w] by (simp add: os_Stat_def)

lemma os_ReadFile_cong: "fs w' = fs w \<Longrightarrow> os_ReadFile w' p = os_ReadFile w p"
  using os_Stat_cong [of w' w p] by (simp add: os_ReadFile_def)

lemma path_exists_cong: "fs w' = fs w \<Longrightarrow> path_exists w' p = path_exists w p"
  using os_Stat_cong [of w' w p] by (simp add: path_exists_def)

lemma Unix_emit [simp]: "Unix (emit r w) = Unix w"
  by (simp add: Unix_def)

lemma lookup_None_not_exists: "lookup w p = None \<Longrightarrow> \<not> path_exists w p"
  by (simp add: path_exists_def os_Stat_def)

lemma map_of_filter_key:
  "map_of (filter (\<lambda>e. P (fst e)) xs) k = (if P k then map_of xs k else None)"
  by (induction xs) auto

lemma set_butlast_prefixes: "set (butlast (prefixes p)) = {q. strict_prefix q p}"
proof (cases p rule: rev_cases)
  case Nil
  then show ?thesis by simp
next
  case (snoc xs x)
  then show ?thesis by (auto simp: in_set_prefixes strict_prefix_def prefix_snoc)
qed

lemma os_Stat_Inr_iff:
  "os_Stat w p = Inr n \<longleftrightarrow>
     (\<forall>q. strict_prefix q p \<longrightarrow> \<not> is_file (lookup w q)) \<and> lookup w p = Some n"
  by (auto simp: os_Stat_def set_butlast_prefixes split: option.splits)

lemma os_ReadFile_Inr_iff:
  "os_ReadFile w p = Inr s \<longleftrightarrow> os_Stat w p = Inr (File s)"
  by (auto simp: os_ReadFile_def split: sum.splits node.splits)

text \<open>Writing a file and reading it back.\<close>

lemma os_WriteFile_frame:
  "os_WriteFile w p s = (r, w') \<Longrightarrow>
   clock w' = clock w \<and> mono w' = mono w \<and> logged w' = logged w \<and>
   readonly w' = readonly w \<and> unlistable w' = unlistable w \<and> faulty w' = faulty w"
  by (auto simp: os_WriteFile_def split: sum.splits node.splits if_splits option.splits)

lemma os_WriteFile_world:
  "os_WriteFile w p s = (None, w') \<Longrightarrow> w' = w\<lparr>fs := AList.update p (File s) (fs w)\<rparr>"
  by (auto simp: os_WriteFile_def split: sum.splits node.splits if_splits option.splits)

lemma os_WriteFile_read:
  assumes "os_WriteFile w p s = (None, w')"
  shows "os_ReadFile w' p = Inr s"
proof -
  from assms have parent: "os_Stat w (butlast p) = Inr Dir" and notdir: "lookup w p \<noteq> Some Dir"
    by (auto simp: os_WriteFile_def split: sum.splits node.splits if_splits option.splits)
  from notdir have p: "p \<noteq> []" by (auto simp: lookup_def)
  have w': "fs w' = AList.update p (File s) (fs w)"
    using os_WriteFile_world [OF assms] by simp
  have here: "lookup w' p = Some (File s)"
    using p by (simp add: lookup_def w' update_conv')
  have above: "\<not> is_file (lookup w' q)" if "strict_prefix q p" for q
  proof -
    from that have "q \<noteq> p" by auto
    then have same: "lookup w' q = lookup w q"
      by (simp add: lookup_def w' update_conv')
    from that p have "prefix q (butlast p)"
      by (metis append_butlast_last_id prefix_snoc strict_prefix_def)
    then have "q = butlast p \<or> strict_prefix q (butlast p)" by auto
    with parent same show ?thesis by (auto simp: os_Stat_Inr_iff is_file_def)
  qed
  from here above show ?thesis
    by (simp add: os_ReadFile_Inr_iff os_Stat_Inr_iff)
qed

text \<open>Making directories changes neither the clock nor any regular file.\<close>

lemma mkdir_from_frame:
  "mkdir_from q cs w = (r, w') \<Longrightarrow>
   clock w' = clock w \<and> mono w' = mono w \<and> logged w' = logged w \<and>
   readonly w' = readonly w \<and> unlistable w' = unlistable w \<and> faulty w' = faulty w"
proof (induction q cs w rule: mkdir_from.induct)
  case (1 q w)
  then show ?case by simp
next
  case (2 q c cs w)
  then show ?case
    by (auto split: option.splits node.splits if_splits)
qed

lemma mkdir_from_files:
  "mkdir_from q cs w = (r, w') \<Longrightarrow>
   (lookup w' p = Some (File s)) = (lookup w p = Some (File s))"
proof (induction q cs w rule: mkdir_from.induct)
  case (1 q w)
  then show ?case by simp
next
  case (2 q c cs w)
  show ?case
  proof (cases "lookup w (q @ [c])")
    case None
    show ?thesis
    proof (cases "q @ [c] \<in> set (readonly w)")
      case True
      with None 2 show ?thesis by simp
    next
      case False
      let ?w = "w\<lparr>fs := fs w @ [(q @ [c], Dir)]\<rparr>"
      from None False "2.prems" have run: "mkdir_from (q @ [c]) cs ?w = (r, w')" by simp
      have "(lookup w' p = Some (File s)) = (lookup ?w p = Some (File s))"
        using "2.IH"(1) [OF None False run] .
      also have "\<dots> = (lookup w p = Some (File s))"
        using None by (auto simp: lookup_def map_add_def split: option.splits)
      finally show ?thesis .
    qed
  next
    case (Some n)
    with 2 show ?thesis by (cases n) auto
  qed
qed

lemma mkdir_from_is_file:
  assumes "mkdir_from q cs w = (r, w')"
  shows "is_file (lookup w' p) = is_file (lookup w p)"
proof -
  have "is_file (lookup v p) \<longleftrightarrow> (\<exists>s. lookup v p = Some (File s))" for v
    by (auto simp: is_file_def split: option.splits node.splits)
  with mkdir_from_files [OF assms] show ?thesis by simp
qed

lemma mkdir_from_read:
  assumes "mkdir_from q cs w = (r, w')"
  shows "(os_ReadFile w' p = Inr s) = (os_ReadFile w p = Inr s)"
  by (simp add: os_ReadFile_Inr_iff os_Stat_Inr_iff mkdir_from_is_file [OF assms]
      mkdir_from_files [OF assms])

lemma generateCollectionDirectory_frame:
  assumes "generateCollectionDirectory S c w = (r, w')"
  shows "clock w' = clock w" and "(os_ReadFile w' p = Inr s) = (os_ReadFile w p = Inr s)"
    and "r = Inr d \<Longrightarrow> d = collection_directory S c w"
proof -
  obtain e v where m: "os_MkdirAll w (collection_directory S c w) = (e, v)"
    by (cases "os_MkdirAll w (collection_directory S c w)")
  then have mk: "mkdir_from [] (collection_directory S c w) w = (e, v)"
    by (simp add: os_MkdirAll_def)
  from assms m have w': "fs w' = fs v \<and> clock w' = clock v"
    by (auto simp: generateCollectionDirectory_def split: option.splits)
  with mkdir_from_frame [OF mk] show "clock w' = clock w" by simp
  from w' have "os_ReadFile w' p = os_ReadFile v p" by (intro os_ReadFile_cong) simp
  with mkdir_from_read [OF mk] show "(os_ReadFile w' p = Inr s) = (os_ReadFile w p = Inr s)"
    by simp
  show "d = collection_directory S c w" if "r = Inr d"
    using assms m that by (auto simp: generateCollectionDirectory_def split: option.splits)
qed

text \<open>Removal.\<close>

lemma os_Remove_gone:
  assumes "os_Remove w p = (None, w')"
  shows "lookup w' p = None"
proof -
  from assms have "p \<noteq> []" and "fs w' = filter (\<lambda>e. fst e \<noteq> p) (fs w)"
    by (auto simp: os_Remove_def split: sum.splits if_splits)
  then show ?thesis
    by (simp add: lookup_def map_of_filter_key [where P = "\<lambda>k. k \<noteq> p"])
qed

lemma os_Remove_failure: "os_Remove w p = (Some e, w') \<Longrightarrow> w' = w"
  by (auto simp: os_Remove_def split: sum.splits if_splits)

lemma os_Remove_other:
  assumes "os_Remove w p = (r, w')" and "q \<noteq> p"
  shows "lookup w' q = lookup w q"
proof (cases r)
  case None
  with assms have "fs w' = filter (\<lambda>e. fst e \<noteq> p) (fs w)"
    by (auto simp: os_Remove_def split: sum.splits if_splits)
  with assms(2) show ?thesis
    by (simp add: lookup_def map_of_filter_key [where P = "\<lambda>k. k \<noteq> p"])
next
  case (Some e)
  with assms os_Remove_failure [of w p e w'] show ?thesis by simp
qed

lemma os_Remove_subset:
  assumes "os_Remove w p = (r, w')"
  shows "lookup w' q = None \<or> lookup w' q = lookup w q"
proof (cases "q = p")
  case True
  show ?thesis
  proof (cases r)
    case None
    with assms True os_Remove_gone [of w p w'] show ?thesis by simp
  next
    case (Some e)
    with assms os_Remove_failure [of w p e w'] show ?thesis by simp
  qed
next
  case False
  with os_Remove_other [OF assms, of q] show ?thesis by simp
qed

lemma os_RemoveAll_fs:
  "os_RemoveAll w p = (r, w') \<Longrightarrow>
   fs w' = filter (\<lambda>e. \<not> prefix p (fst e) \<or> pinned w (fst e)) (fs w) \<and>
   (r = None \<longleftrightarrow> \<not> (\<exists>q \<in> fst ` set (fs w). prefix p q \<and> pinned w q))"
  by (auto simp: os_RemoveAll_def Let_def split: if_splits)

lemma os_RemoveAll_lookup:
  assumes "os_RemoveAll w p = (r, w')" and "q \<noteq> []"
  shows "lookup w' q = (if \<not> prefix p q \<or> pinned w q then lookup w q else None)"
proof -
  define P where "P = (\<lambda>k. \<not> prefix p k \<or> pinned w k)"
  have "fs w' = filter (\<lambda>e. P (fst e)) (fs w)"
    using os_RemoveAll_fs [OF assms(1)] by (simp add: P_def)
  then have "map_of (fs w') q = (if P q then map_of (fs w) q else None)"
    by (simp only: map_of_filter_key)
  with assms(2) show ?thesis by (simp add: lookup_def P_def)
qed

lemma os_RemoveAll_subset:
  assumes "os_RemoveAll w p = (r, w')"
  shows "lookup w' q = None \<or> lookup w' q = lookup w q"
proof (cases "q = []")
  case True
  then show ?thesis by (simp add: lookup_def)
next
  case False
  with os_RemoveAll_lookup [OF assms] show ?thesis by simp
qed

lemma os_RemoveAll_gone:
  assumes "os_RemoveAll w p = (None, w')" and "p \<noteq> []"
  shows "lookup w' p = None"
proof (cases "map_of (fs w) p")
  case None
  with os_RemoveAll_subset [OF assms(1), of p] assms(2) show ?thesis
    by (auto simp: lookup_def)
next
  case (Some n)
  then have "p \<in> fst ` set (fs w)"
    by (metis map_of_eq_None_iff option.distinct(1))
  with os_RemoveAll_fs [OF assms(1)] have "\<not> pinned w p" by auto
  with os_RemoveAll_lookup [OF assms] show ?thesis by simp
qed

subsection \<open>Cleaning up\<close>

lemma lookup_emit [simp]: "lookup (emit r w) q = lookup w q"
  by (simp add: lookup_def)

lemma os_Stat_emit [simp]: "os_Stat (emit r w) p = os_Stat w p"
  by (rule os_Stat_cong) simp

lemma os_ReadFile_emit [simp]: "os_ReadFile (emit r w) p = os_ReadFile w p"
  by (rule os_ReadFile_cong) simp

lemma path_exists_emit [simp]: "path_exists (emit r w) p = path_exists w p"
  by (rule path_exists_cong) simp

text \<open>The two deferred functions of \<open>doRun\<close>.\<close>

lemma wipe_archive_cases:
  obtains (removed) w1 where "os_Remove w a = (None, w1)" "wipe_archive a w = w1"
  | (failed) e where "os_Remove w a = (Some e, w)"
      "wipe_archive a w = emit (Warn_did_not_wipe_archive a e) w"
proof (cases "os_Remove w a")
  case (Pair r w1)
  show ?thesis
  proof (cases r)
    case None
    with Pair removed show ?thesis by (simp add: wipe_archive_def)
  next
    case (Some e)
    with Pair os_Remove_failure [of w a e w1] have "os_Remove w a = (Some e, w)" by simp
    then show ?thesis using failed by (simp add: wipe_archive_def)
  qed
qed

lemma wipe_archive_subset:
  "lookup (wipe_archive a w) q = None \<or> lookup (wipe_archive a w) q = lookup w q"
proof (cases rule: wipe_archive_cases [of w a])
  case (removed w1)
  with os_Remove_subset [of w a None w1 q] show ?thesis by simp
next
  case (failed e)
  then show ?thesis by simp
qed

lemma wipe_archive_other:
  assumes "q \<noteq> a"
  shows "lookup (wipe_archive a w) q = lookup w q"
proof (cases rule: wipe_archive_cases [of w a])
  case (removed w1)
  with os_Remove_other [of w a None w1 q] assms show ?thesis by simp
next
  case (failed e)
  then show ?thesis by simp
qed

lemma wipe_archive_gone:
  assumes "fst (os_Remove w a) = None"
  shows "lookup (wipe_archive a w) a = None"
proof (cases rule: wipe_archive_cases [of w a])
  case (removed w1)
  with os_Remove_gone [of w a w1] show ?thesis by simp
next
  case (failed e)
  with assms show ?thesis by simp
qed

lemma wipe_archive_warns:
  assumes "fst (os_Remove w a) = Some e"
  shows "wipe_archive a w = emit (Warn_did_not_wipe_archive a e) w"
proof (cases rule: wipe_archive_cases [of w a])
  case (removed w1)
  with assms show ?thesis by simp
next
  case (failed e')
  with assms show ?thesis by simp
qed

lemma wipe_archive_keeps_directory:
  assumes "os_Stat w d = Inr Dir" and "a \<noteq> d"
  shows "os_Stat (wipe_archive a w) d = Inr Dir"
proof -
  have "\<not> is_file (lookup (wipe_archive a w) q)" if "strict_prefix q d" for q
    using wipe_archive_subset [of a w q] assms(1) that
    by (auto simp: os_Stat_Inr_iff is_file_def)
  moreover have "lookup (wipe_archive a w) d = Some Dir"
    using wipe_archive_other [of d a w] assms by (simp add: os_Stat_Inr_iff)
  ultimately show ?thesis by (simp add: os_Stat_Inr_iff)
qed

lemma wipe_tempdir_keep [simp]: "wipe_tempdir True t w = w"
  by (simp add: wipe_tempdir_def)

lemma wipe_tempdir_cases:
  obtains (removed) w1 where "os_RemoveAll w d = (None, w1)" "wipe_tempdir False (Some d) w = w1"
  | (failed) e w1 where "os_RemoveAll w d = (Some e, w1)"
      "wipe_tempdir False (Some d) w = emit (Warn_didnt_wipe_temporary_directory d e) w1"
proof (cases "os_RemoveAll w d")
  case (Pair r w1)
  show ?thesis
  proof (cases r)
    case None
    with Pair removed show ?thesis by (simp add: wipe_tempdir_def)
  next
    case (Some e)
    with Pair failed show ?thesis by (simp add: wipe_tempdir_def)
  qed
qed

lemma wipe_tempdir_subset:
  "lookup (wipe_tempdir False (Some d) w) q = None \<or>
   lookup (wipe_tempdir False (Some d) w) q = lookup w q"
proof (cases rule: wipe_tempdir_cases [of w d])
  case (removed w1)
  with os_RemoveAll_subset [of w d None w1 q] show ?thesis by simp
next
  case (failed e w1)
  with os_RemoveAll_subset [of w d "Some e" w1 q] show ?thesis by simp
qed

lemma wipe_tempdir_gone:
  assumes "fst (os_RemoveAll w d) = None" and "d \<noteq> []"
  shows "lookup (wipe_tempdir False (Some d) w) d = None"
proof (cases rule: wipe_tempdir_cases [of w d])
  case (removed w1)
  with os_RemoveAll_gone [of w d w1] assms show ?thesis by simp
next
  case (failed e w1)
  with assms show ?thesis by simp
qed

lemma wipe_tempdir_warns:
  assumes "fst (os_RemoveAll w d) = Some e"
  shows "last (logged (wipe_tempdir False (Some d) w)) = Warn_didnt_wipe_temporary_directory d e"
proof (cases rule: wipe_tempdir_cases [of w d])
  case (removed w1)
  with assms show ?thesis by simp
next
  case (failed e' w1)
  with assms show ?thesis by simp
qed

lemma Collect_directory:
  assumes "Collect_go S c w = (Inr d, w')"
  shows "d = collection_directory S c w"
proof -
  from assms obtain w1 where "generateCollectionDirectory S c w = (Inr d, w1)"
    by (auto simp: Collect_go_def Let_def split: list.splits sum.splits option.splits prod.splits)
  then show ?thesis by (rule generateCollectionDirectory_frame(3)) simp
qed

lemma Collect_directory_not_root: "Collect_go S c w = (Inr d, w') \<Longrightarrow> d \<noteq> []"
  using Collect_directory [of S c w d w'] collection_directory_not_root [of S c w] by simp

subsection \<open>The run with and without upload\<close>

text \<open>
  C1 (as the code has it). \<open>doRun\<close> sets \<^verbatim>\<open>keep\<close> to \<^verbatim>\<open>--keep || --no-upload\<close>. So a run
  with ``no upload'' goes from the collected state to the end without cleaning up, whether
  or not ``keep'' was requested: nothing is packaged, uploaded or removed, the world at the
  end is the one \<open>Collect_go\<close> left, and the summary reports the directory as kept, with its
  path. When the collection fails, the run ends with its error and removes nothing either.
\<close>

theorem doRun_no_upload_keeps:
  assumes "GetCollector S ident w = (Inr c, w1)"
  shows "(Collect_go S c w1 = (Inr d, w2) \<longrightarrow>
            doRun S flag_keep True ident w =
              (Inr \<lparr>run_Collector = NewCollectorInfoDTO c,
                    run_CollectDuration = mono w2 - mono w1,
                    run_UploadDuration = 0,
                    run_Keep = True,
                    run_KeepPath = Some d,
                    run_Upload = False\<rparr>, w2)
            \<and> os_Stat (snd (doRun S flag_keep True ident w)) d = os_Stat w2 d)
       \<and> (Collect_go S c w1 = (Inl err, w2) \<longrightarrow> doRun S flag_keep True ident w = (Inl err, w2))"
  using assms by (simp add: doRun_def)

theorem doRun_no_upload_keeps_witness:
  "GetCollector sample_sys ''mock'' sample_world = (Inr mock_Collector, sample_world)
   \<and> fst (Collect_go sample_sys mock_Collector sample_world) = Inr [''tmp'', ''mock-1'']
   \<and> snd (doRun sample_sys False True ''mock'' sample_world) =
       snd (Collect_go sample_sys mock_Collector sample_world)
   \<and> GetCollector sample_sys ''cat'' sample_world = (Inr cat_Collector, sample_world)
   \<and> fst (Collect_go sample_sys cat_Collector sample_world) =
       Inl (CouldNotRunCollector ''exit status 1'')
   \<and> doRun sample_sys False True ''cat'' sample_world =
       (Inl (CouldNotRunCollector ''exit status 1''),
        snd (Collect_go sample_sys cat_Collector sample_world))"
proof -
  have mock: "GetCollector sample_sys ''mock'' sample_world = (Inr mock_Collector, sample_world)"
    by code_simp
  have collected: "fst (Collect_go sample_sys mock_Collector sample_world) = Inr [''tmp'', ''mock-1'']"
    by code_simp
  then have run: "Collect_go sample_sys mock_Collector sample_world =
      (Inr [''tmp'', ''mock-1''], snd (Collect_go sample_sys mock_Collector sample_world))"
    by (simp add: prod_eq_iff)
  have cat: "GetCollector sample_sys ''cat'' sample_world = (Inr cat_Collector, sample_world)"
    by code_simp
  have failed: "fst (Collect_go sample_sys cat_Collector sample_world) =
      Inl (CouldNotRunCollector ''exit status 1'')"
    by code_simp
  then have fail: "Collect_go sample_sys cat_Collector sample_world =
      (Inl (CouldNotRunCollector ''exit status 1''),
       snd (Collect_go sample_sys cat_Collector sample_world))"
    by (simp add: prod_eq_iff)
  from doRun_no_upload_keeps [OF mock, of "[''tmp'', ''mock-1'']" _ False] run
  have "snd (doRun sample_sys False True ''mock'' sample_world) =
       snd (Collect_go sample_sys mock_Collector sample_world)"
    by simp
  moreover from doRun_no_upload_keeps [OF cat, of _ _ False "CouldNotRunCollector ''exit status 1''"] fail
  have "doRun sample_sys False True ''cat'' sample_world =
       (Inl (CouldNotRunCollector ''exit status 1''),
        snd (Collect_go sample_sys cat_Collector sample_world))"
    by simp
  ultimately show ?thesis using mock collected cat failed by simp
qed

text \<open>
  C1 as it is written fails: with ``no upload'' and without ``keep'' the output directory
  of the run is still there at the end.
\<close>

theorem doRun_no_upload_counterexample:
  "fst (GetCollector sample_sys ''mock'' sample_world) = Inr mock_Collector
   \<and> fst (Collect_go sample_sys mock_Collector sample_world) = Inr [''tmp'', ''mock-1'']
   \<and> path_exists (snd (doRun sample_sys False True ''mock'' sample_world)) [''tmp'', ''mock-1'']"
  by code_simp

text \<open>
  C9 (as the code has it). With upload requested and without ``keep'', when the packager
  has returned an archive and the upload fails, \<open>doRun\<close> returns the error of the upload:
  there is no summary. On the way out it removes the archive and then the output
  directory. Each of the two is gone at the end when its removal succeeds; when it fails,
  the warning is in the log.
\<close>

theorem doRun_upload_failure:
  assumes "GetCollector S ident w = (Inr c, w1)"
    and "Collect_go S c w1 = (Inr d, w2)"
    and "Compress S d w2 = (Inr a, w3)"
    and "Upload S a (Exec_ContentType c) w3 = (Some err, w4)"
  shows "doRun S False False ident w =
           (Inl err, wipe_tempdir False (Some d) (wipe_archive a w4))
       \<and> (fst (os_Remove w4 a) = None \<longrightarrow>
             \<not> path_exists (snd (doRun S False False ident w)) a)
       \<and> (fst (os_RemoveAll (wipe_archive a w4) d) = None \<longrightarrow>
             \<not> path_exists (snd (doRun S False False ident w)) d)"
proof -
  let ?w5 = "wipe_archive a w4"
  let ?w' = "wipe_tempdir False (Some d) ?w5"
  have run: "doRun S False False ident w = (Inl err, ?w')"
    using assms by (simp add: doRun_def)
  have d: "d \<noteq> []"
    using assms(2) by (rule Collect_directory_not_root)
  have archive: "\<not> path_exists ?w' a" if "fst (os_Remove w4 a) = None"
  proof -
    from that have "lookup ?w5 a = None" by (rule wipe_archive_gone)
    with wipe_tempdir_subset [of d ?w5 a] have "lookup ?w' a = None" by auto
    then show ?thesis by (rule lookup_None_not_exists)
  qed
  have directory: "\<not> path_exists ?w' d" if "fst (os_RemoveAll ?w5 d) = None"
    using wipe_tempdir_gone [OF that d] by (rule lookup_None_not_exists)
  show ?thesis
    unfolding run snd_conv using archive directory by blast
qed

theorem doRun_upload_failure_witness:
  "GetCollector offline_sys ''mock'' sample_world = (Inr mock_Collector, sample_world)
   \<and> fst (Collect_go offline_sys mock_Collector sample_world) = Inr [''tmp'', ''mock-1'']
   \<and> fst (Compress offline_sys [''tmp'', ''mock-1'']
            (snd (Collect_go offline_sys mock_Collector sample_world))) =
       Inr [''tmp'', ''mock-1.tar'']
   \<and> fst (doRun offline_sys False False ''mock'' sample_world) =
       Inl (Foreign ''connection refused'')
   \<and> \<not> path_exists (snd (doRun offline_sys False False ''mock'' sample_world))
         [''tmp'', ''mock-1.tar'']
   \<and> \<not> path_exists (snd (doRun offline_sys False False ''mock'' sample_world))
         [''tmp'', ''mock-1'']"
proof -
  let ?w2 = "snd (Collect_go offline_sys mock_Collector sample_world)"
  let ?w3 = "snd (Compress offline_sys [''tmp'', ''mock-1''] ?w2)"
  have mock: "GetCollector offline_sys ''mock'' sample_world = (Inr mock_Collector, sample_world)"
    by code_simp
  have collected: "fst (Collect_go offline_sys mock_Collector sample_world) = Inr [''tmp'', ''mock-1'']"
    by code_simp
  then have run: "Collect_go offline_sys mock_Collector sample_world = (Inr [''tmp'', ''mock-1''], ?w2)"
    by (simp add: prod_eq_iff)
  have packed: "fst (Compress offline_sys [''tmp'', ''mock-1''] ?w2) = Inr [''tmp'', ''mock-1.tar'']"
    by code_simp
  then have pack: "Compress offline_sys [''tmp'', ''mock-1''] ?w2 = (Inr [''tmp'', ''mock-1.tar''], ?w3)"
    by (simp add: prod_eq_iff)
  have upload: "Upload offline_sys [''tmp'', ''mock-1.tar''] (Exec_ContentType mock_Collector) ?w3 =
      (Some (Foreign ''connection refused''), ?w3)"
    by (simp add: offline_sys_def)
  have removable: "fst (os_Remove ?w3 [''tmp'', ''mock-1.tar'']) = None"
    by code_simp
  have wipeable: "fst (os_RemoveAll (wipe_archive [''tmp'', ''mock-1.tar''] ?w3) [''tmp'', ''mock-1'']) = None"
    by code_simp
  note inst = doRun_upload_failure [OF mock run pack upload]
  from inst have "fst (doRun offline_sys False False ''mock'' sample_world) =
      Inl (Foreign ''connection refused'')"
    by (simp only: fst_conv)
  moreover from inst removable
  have "\<not> path_exists (snd (doRun offline_sys False False ''mock'' sample_world))
         [''tmp'', ''mock-1.tar'']"
    by blast
  moreover from inst wipeable
  have "\<not> path_exists (snd (doRun offline_sys False False ''mock'' sample_world))
         [''tmp'', ''mock-1'']"
    by blast
  ultimately show ?thesis using mock collected packed by blast
qed

text \<open>
  C9 as it is written fails: when the upload fails the run has no summary, so none that
  reports the upload as unsuccessful or holds the duration of the collection. And where
  the directory may not be removed, it is still there after the run.
\<close>

theorem doRun_upload_failure_counterexample:
  "fst (GetCollector offline_sys ''mock'' sample_world) = Inr mock_Collector
   \<and> fst (Collect_go offline_sys mock_Collector sample_world) = Inr [''tmp'', ''mock-1'']
   \<and> fst (Compress offline_sys [''tmp'', ''mock-1'']
            (snd (Collect_go offline_sys mock_Collector sample_world))) =
       Inr [''tmp'', ''mock-1.tar'']
   \<and> fst (doRun offline_sys False False ''mock'' sample_world) =
       Inl (Foreign ''connection refused'')
   \<and> fst (doRun offline_sys False False ''mock'' stale_world) =
       Inl (Foreign ''connection refused'')
   \<and> path_exists (snd (doRun offline_sys False False ''mock'' stale_world)) [''tmp'', ''mock-1'']"
  by code_simp

lemma doRun_keep_summary:
  assumes "GetCollector S ident w = (Inr c, w1)" and "Collect_go S c w1 = (Inr d, w2)"
    and "flag_keep \<or> flag_no_upload"
    and "fst (doRun S flag_keep flag_no_upload ident w) = Inr dto"
  shows "run_Keep dto \<and> run_KeepPath dto = Some d"
  using assms by (auto simp: doRun_def Let_def split: prod.splits sum.splits option.splits if_splits)

lemma doRun_keep_world:
  assumes "GetCollector S ident w = (Inr c, w1)" and "Collect_go S c w1 = (Inr d, w2)"
  shows "snd (doRun S True False ident w) =
          (case Compress S d w2 of
             (Inl e, w3) \<Rightarrow> w3
           | (Inr a, w3) \<Rightarrow> wipe_archive a (snd (Upload S a (Exec_ContentType c) w3)))"
  using assms by (auto simp: doRun_def Let_def split: prod.splits sum.splits option.splits)

lemma doRun_wipe_world:
  assumes "GetCollector S ident w = (Inr c, w1)" and "Collect_go S c w1 = (Inr d, w2)"
  shows "snd (doRun S False False ident w) =
          wipe_tempdir False (Some d)
            (case Compress S d w2 of
               (Inl e, w3) \<Rightarrow> w3
             | (Inr a, w3) \<Rightarrow> wipe_archive a (snd (Upload S a (Exec_ContentType c) w3)))"
  using assms by (auto simp: doRun_def Let_def split: prod.splits sum.splits option.splits)

text \<open>
  C3 (as the code has it), for a run whose collection has succeeded, with the directory
  \<open>d\<close> that \<open>Collect_go\<close> has returned; \<^verbatim>\<open>keep\<close> is \<^verbatim>\<open>--keep || --no-upload\<close>. Let \<open>v\<close>
  be the world that the last stage of a run with upload leaves: the one the packager
  left when it fails, and else the one the uploader left, whether it fails or not, less
  the archive.
  \<^item> Without \<^verbatim>\<open>keep\<close>: the run ends with \<^verbatim>\<open>os.RemoveAll\<close> of the directory in \<open>v\<close>. When
    that succeeds the directory is gone at the end of the run; when it fails with an
    error, the last line of the log is the warning that the directory could not be
    wiped, with that error.
  \<^item> With \<^verbatim>\<open>keep\<close>: the run does not remove the directory. Without upload the world at
    the end is the one \<open>Collect_go\<close> left; with upload it is \<open>v\<close>; and removing an
    archive that is not the directory itself leaves the directory in place. A run that
    ends with a summary has the path of the directory in it.
\<close>

theorem doRun_cleanup:
  assumes "GetCollector S ident w = (Inr c, w1)" and "Collect_go S c w1 = (Inr d, w2)"
  shows "(\<forall>v. v = (case Compress S d w2 of
                    (Inl e, w3) \<Rightarrow> w3
                  | (Inr a, w3) \<Rightarrow> wipe_archive a (snd (Upload S a (Exec_ContentType c) w3))) \<longrightarrow>
            snd (doRun S False False ident w) = wipe_tempdir False (Some d) v
          \<and> (fst (os_RemoveAll v d) = None \<longrightarrow>
               \<not> path_exists (snd (doRun S False False ident w)) d)
          \<and> (\<forall>x. fst (os_RemoveAll v d) = Some x \<longrightarrow>
               last (logged (snd (doRun S False False ident w))) =
                 Warn_didnt_wipe_temporary_directory d x)
          \<and> snd (doRun S True False ident w) = v)
       \<and> (flag_keep \<or> flag_no_upload \<longrightarrow>
            (\<forall>dto. fst (doRun S flag_keep flag_no_upload ident w) = Inr dto \<longrightarrow>
                   run_Keep dto \<and> run_KeepPath dto = Some d))
       \<and> snd (doRun S flag_keep True ident w) = w2
       \<and> (a \<noteq> d \<and> os_Stat w4 d = Inr Dir \<longrightarrow> os_Stat (wipe_archive a w4) d = Inr Dir)"
proof (intro conjI allI impI)
  fix v
  assume v: "v = (case Compress S d w2 of
                    (Inl e, w3) \<Rightarrow> w3
                  | (Inr a, w3) \<Rightarrow> wipe_archive a (snd (Upload S a (Exec_ContentType c) w3)))"
  have d: "d \<noteq> []"
    using assms(2) by (rule Collect_directory_not_root)
  show final: "snd (doRun S False False ident w) = wipe_tempdir False (Some d) v"
    unfolding v using assms by (rule doRun_wipe_world)
  show "\<not> path_exists (snd (doRun S False False ident w)) d"
    if "fst (os_RemoveAll v d) = None"
    unfolding final using wipe_tempdir_gone [OF that d] by (rule lookup_None_not_exists)
  show "last (logged (snd (doRun S False False ident w))) =
          Warn_didnt_wipe_temporary_directory d x"
    if "fst (os_RemoveAll v d) = Some x" for x
    unfolding final using that by (rule wipe_tempdir_warns)
  show "snd (doRun S True False ident w) = v"
    unfolding v using assms by (rule doRun_keep_world)
next
  fix dto
  assume "flag_keep \<or> flag_no_upload"
    and "fst (doRun S flag_keep flag_no_upload ident w) = Inr dto"
  with doRun_keep_summary [OF assms]
  show "run_Keep dto" and "run_KeepPath dto = Some d" by blast+
next
  show "snd (doRun S flag_keep True ident w) = w2"
    using assms by (simp add: doRun_def)
next
  assume "a \<noteq> d \<and> os_Stat w4 d = Inr Dir"
  then show "os_Stat (wipe_archive a w4) d = Inr Dir"
    using wipe_archive_keeps_directory [of w4 d a] by blast
qed

theorem doRun_cleanup_witness:
  "GetCollector sample_sys ''mock'' sample_world = (Inr mock_Collector, sample_world)
   \<and> fst (Collect_go sample_sys mock_Collector sample_world) = Inr [''tmp'', ''mock-1'']
   \<and> \<not> path_exists (snd (doRun sample_sys False False ''mock'' sample_world)) [''tmp'', ''mock-1'']
   \<and> run_KeepPath (projr (fst (doRun sample_sys True False ''mock'' sample_world))) =
       Some [''tmp'', ''mock-1'']
   \<and> os_Stat (snd (doRun sample_sys True False ''mock'' sample_world)) [''tmp'', ''mock-1''] = Inr Dir
   \<and> GetCollector sample_sys ''mock'' stale_world = (Inr mock_Collector, stale_world)
   \<and> fst (Collect_go sample_sys mock_Collector stale_world) = Inr [''tmp'', ''mock-1'']
   \<and> path_exists (snd (doRun sample_sys False False ''mock'' stale_world)) [''tmp'', ''mock-1'']
   \<and> last (logged (snd (doRun sample_sys False False ''mock'' stale_world))) =
       Warn_didnt_wipe_temporary_directory [''tmp'', ''mock-1''] EACCES"
proof -
  let ?d = "[''tmp'', ''mock-1'']"
  let ?a = "[''tmp'', ''mock-1.tar'']"
  define w2 where "w2 = snd (Collect_go sample_sys mock_Collector sample_world)"
  define w3 where "w3 = snd (Compress sample_sys ?d w2)"
  define w4 where "w4 = snd (Upload sample_sys ?a (Exec_ContentType mock_Collector) w3)"
  define v where "v = (case Compress sample_sys ?d w2 of
       (Inl e, w3) \<Rightarrow> w3
     | (Inr a, w3) \<Rightarrow>
         wipe_archive a (snd (Upload sample_sys a (Exec_ContentType mock_Collector) w3)))"
  have mock: "GetCollector sample_sys ''mock'' sample_world = (Inr mock_Collector, sample_world)"
    by code_simp
  have collected: "fst (Collect_go sample_sys mock_Collector sample_world) = Inr ?d"
    by code_simp
  then have run: "Collect_go sample_sys mock_Collector sample_world = (Inr ?d, w2)"
    by (simp add: prod_eq_iff w2_def)
  note inst = doRun_cleanup [OF mock run, of True False ?a w4]
  have removable: "fst (os_RemoveAll v ?d) = None"
    unfolding v_def w2_def by code_simp
  from inst v_def removable
  have gone: "\<not> path_exists (snd (doRun sample_sys False False ''mock'' sample_world)) ?d"
    by blast
  have "\<not> isl (fst (doRun sample_sys True False ''mock'' sample_world))"
    by code_simp
  then have "fst (doRun sample_sys True False ''mock'' sample_world) =
      Inr (projr (fst (doRun sample_sys True False ''mock'' sample_world)))"
    by simp
  with inst have kept:
    "run_KeepPath (projr (fst (doRun sample_sys True False ''mock'' sample_world))) = Some ?d"
    by blast
  have "fst (Compress sample_sys ?d w2) = Inr ?a"
    unfolding w2_def by code_simp
  then have pack: "Compress sample_sys ?d w2 = (Inr ?a, w3)"
    by (simp add: prod_eq_iff w3_def)
  from inst v_def have "snd (doRun sample_sys True False ''mock'' sample_world) = v"
    by blast
  then have final: "snd (doRun sample_sys True False ''mock'' sample_world) = wipe_archive ?a w4"
    by (simp only: v_def pack prod.case sum.case w4_def)
  have "?a \<noteq> ?d" by simp
  moreover have "os_Stat w4 ?d = Inr Dir"
    unfolding w4_def w3_def w2_def by code_simp
  ultimately have "os_Stat (wipe_archive ?a w4) ?d = Inr Dir"
    using inst by blast
  with final have there:
    "os_Stat (snd (doRun sample_sys True False ''mock'' sample_world)) ?d = Inr Dir"
    by simp
  txt \<open>The same run where the directory may not be removed.\<close>
  define v2 where "v2 = snd (Collect_go sample_sys mock_Collector stale_world)"
  define u where "u = (case Compress sample_sys ?d v2 of
       (Inl e, w3) \<Rightarrow> w3
     | (Inr a, w3) \<Rightarrow>
         wipe_archive a (snd (Upload sample_sys a (Exec_ContentType mock_Collector) w3)))"
  have mock': "GetCollector sample_sys ''mock'' stale_world = (Inr mock_Collector, stale_world)"
    by code_simp
  have collected': "fst (Collect_go sample_sys mock_Collector stale_world) = Inr ?d"
    by code_simp
  then have run': "Collect_go sample_sys mock_Collector stale_world = (Inr ?d, v2)"
    by (simp add: prod_eq_iff v2_def)
  have stays: "path_exists (snd (doRun sample_sys False False ''mock'' stale_world)) ?d"
    by code_simp
  have stuck: "fst (os_RemoveAll u ?d) = Some EACCES"
    unfolding u_def v2_def by code_simp
  from doRun_cleanup [OF mock' run', of False False ?a v2] u_def stuck
  have warned: "last (logged (snd (doRun sample_sys False False ''mock'' stale_world))) =
            Warn_didnt_wipe_temporary_directory ?d EACCES"
    by blast
  from mock collected gone kept there mock' collected' stays warned show ?thesis by blast
qed

text \<open>
  C3 as it is written fails in four ways. A run with ``keep'' whose upload fails ends with
  the error and has no summary. A run without ``keep'' whose collector ends with status 1
  leaves the directory that \<open>generateCollectionDirectory\<close> has made: \<open>Collect_go\<close> returns
  no path with its error, so \<open>doRun\<close> has nothing to remove. A run without \<^verbatim>\<open>--keep\<close>
  but with \<^verbatim>\<open>--no-upload\<close> keeps the directory. And where the directory may not be
  removed, a run without ``keep'' in which every stage succeeds leaves it and logs a
  warning.
\<close>

theorem doRun_cleanup_counterexample:
  "fst (doRun offline_sys True False ''mock'' sample_world) = Inl (Foreign ''connection refused'')
   \<and> fst (doRun sample_sys False False ''cat'' sample_world) =
       Inl (CouldNotRunCollector ''exit status 1'')
   \<and> path_exists (snd (doRun sample_sys False False ''cat'' sample_world)) [''tmp'', ''cat-1'']
   \<and> path_exists (snd (doRun sample_sys False True ''mock'' sample_world)) [''tmp'', ''mock-1'']
   \<and> \<not> isl (fst (doRun sample_sys False False ''mock'' stale_world))
   \<and> path_exists (snd (doRun sample_sys False False ''mock'' stale_world)) [''tmp'', ''mock-1'']"
  by code_simp

subsection \<open>Loading definitions\<close>

lemma newCollectorFromPath_Inr_iff:
  "newCollectorFromPath S f w = (Inr c, w') \<longleftrightarrow>
     (\<exists>config cc. os_ReadFile w f = Inr config \<and> toml_Decode S config = Some cc \<and>
        c = cc\<lparr>Generated_Path := f\<rparr>) \<and> w' = w"
  by (auto simp: newCollectorFromPath_def newCollectorFromConfiguration_def os_ReadFile_def
      split: sum.splits option.splits node.splits)

lemma newCollectorFromPath_frame:
  "newCollectorFromPath S f w = (r, w') \<Longrightarrow>
   fs w' = fs w \<and> set (logged w) \<subseteq> set (logged w')"
  by (auto simp: newCollectorFromPath_def newCollectorFromConfiguration_def
      split: sum.splits option.splits)

lemma newCollectorFromPath_cong:
  assumes "fs v = fs w"
  shows "fst (newCollectorFromPath S f v) = fst (newCollectorFromPath S f w)"
proof -
  have "os_Stat v f = os_Stat w f" "os_ReadFile v f = os_ReadFile w f"
    using assms by (rule os_Stat_cong, rule os_ReadFile_cong)
  then show ?thesis
    by (simp add: newCollectorFromPath_def newCollectorFromConfiguration_def
        split: sum.splits option.splits)
qed

text \<open>
  The loop of \<open>GetCollectors\<close>: the file system stays as it is, the result holds what was
  there before and the definitions that load, and a line is printed for each file that
  does not.
\<close>

lemma load_each_result:
  "load_each S files acc w = (cs, w') \<Longrightarrow>
   fs w' = fs w \<and> set (logged w) \<subseteq> set (logged w') \<and>
   set cs = set acc \<union> {c. \<exists>f \<in> set files. fst (newCollectorFromPath S f w) = Inr c} \<and>
   (\<forall>f \<in> set files. \<forall>err. fst (newCollectorFromPath S f w) = Inl err \<longrightarrow>
      Printf_malformed_skipping f err \<in> set (logged w'))"
proof (induction files arbitrary: acc w)
  case Nil
  then show ?case by simp
next
  case (Cons f files)
  obtain r w1 where step: "newCollectorFromPath S f w = (r, w1)"
    by (cases "newCollectorFromPath S f w")
  note frame = newCollectorFromPath_frame [OF step]
  have same: "fst (newCollectorFromPath S g v) = fst (newCollectorFromPath S g w)"
    if "fs v = fs w" for g v
    using that by (rule newCollectorFromPath_cong)
  show ?case
  proof (cases r)
    case (Inl err)
    let ?v = "emit (Printf_malformed_skipping f err) w1"
    from Cons.prems step Inl have rest: "load_each S files acc ?v = (cs, w')" by simp
    have v: "fs ?v = fs w" using frame by simp
    from Cons.IH [OF rest] v frame step Inl show ?thesis
      by (auto simp: same [OF v])
  next
    case (Inr c)
    from Cons.prems step Inr have rest: "load_each S files (acc @ [c]) w1 = (cs, w')" by simp
    have v: "fs w1 = fs w" using frame by simp
    from Cons.IH [OF rest] v frame step Inr show ?thesis
      by (auto simp: same [OF v])
  qed
qed

lemma Readdirnames_iff: "name \<in> set (Readdirnames w d) \<longleftrightarrow> d @ [name] \<in> fst ` set (fs w)"
proof -
  have "(q \<noteq> [] \<and> butlast q = d \<and> last q = name) = (q = d @ [name])" for q :: path
    by (auto simp: snoc_eq_iff_butlast)
  then show ?thesis
    by (fastforce simp: Readdirnames_def image_iff)
qed

lemma os_ReadFile_listed:
  assumes "os_ReadFile w (d @ [name]) = Inr config"
  shows "name \<in> set (Readdirnames w d)"
proof -
  from assms have "map_of (fs w) (d @ [name]) = Some (File config)"
    by (simp add: os_ReadFile_Inr_iff os_Stat_Inr_iff lookup_def)
  then have "d @ [name] \<in> fst ` set (fs w)"
    by (metis map_of_eq_None_iff option.distinct(1))
  then show ?thesis by (simp add: Readdirnames_iff)
qed

lemma glob_dir_listed:
  assumes "os_Stat w d = Inr Dir" and "d \<notin> set (unlistable w)"
  shows "glob_dir w d = map (\<lambda>n. d @ [n]) (Readdirnames w d)"
  using assms by (simp add: glob_dir_def)



lemma GetCollectors_loads:
  assumes "os_Stat w (CONFIGURATIONS_DIR S) \<noteq> Inl ENOENT"
    and "\<forall>c \<in> set (CONFIGURATIONS_DIR S). \<not> hasMeta c"
  shows "\<exists>cs w'. GetCollectors S w = (Inr cs, w') \<and> fs w' = fs w
     \<and> set cs = {c. \<exists>f \<in> set (glob_dir w (CONFIGURATIONS_DIR S)).
                      fst (newCollectorFromPath S f w) = Inr c}
     \<and> (\<forall>f \<in> set (glob_dir w (CONFIGURATIONS_DIR S)). \<forall>err.
           fst (newCollectorFromPath S f w) = Inl err \<longrightarrow>
           Printf_malformed_skipping f err \<in> set (logged w'))"
proof -
  let ?dir = "CONFIGURATIONS_DIR S"
  let ?files = "glob_dir w ?dir"
  obtain cs w' where loop: "load_each S ?files [] w = (cs, w')"
    by (cases "load_each S ?files [] w")
  from assms(2) have "filepath_Glob S w ?dir = Inr ?files"
    by (simp add: filepath_Glob_def)
  with assms(1) have run: "GetCollectors S w = (Inr cs, w')"
    by (simp add: GetCollectors_def ensureCollectorsDirectory_def loop)
  note res = load_each_result [OF loop]
  have "fs w' = fs w" using res by simp
  moreover have "set cs = {c. \<exists>f \<in> set ?files. fst (newCollectorFromPath S f w) = Inr c}"
    using res by auto
  moreover have "\<forall>f \<in> set ?files. \<forall>err.
           fst (newCollectorFromPath S f w) = Inl err \<longrightarrow>
           Printf_malformed_skipping f err \<in> set (logged w')"
    using res by auto
  ultimately show ?thesis using run by blast
qed




lemma GetCollector_Inr_iff:
  "GetCollector S ident w = (Inr c, w') \<longleftrightarrow>
     os_Stat w (CONFIGURATIONS_DIR S) \<noteq> Inl ENOENT \<and>
     newCollectorFromPath S (filepath_Join (CONFIGURATIONS_DIR S) (ident @ ''.toml'')) w = (Inr c, w')"
  by (auto simp: GetCollector_def ensureCollectorsDirectory_def)

lemma long_not_special: "3 \<le> length c \<Longrightarrow> c \<noteq> [] \<and> c \<noteq> ''.'' \<and> c \<noteq> ''..''"
  by auto

lemma toml_name: "name @ ''.toml'' \<noteq> [] \<and> name @ ''.toml'' \<noteq> ''.'' \<and> name @ ''.toml'' \<noteq> ''..''"
  by (rule long_not_special) simp

lemma filepath_Join_toml:
  "CHR ''/'' \<notin> set ident \<Longrightarrow> filepath_Join dir (ident @ ''.toml'') = dir @ [ident @ ''.toml'']"
  using toml_name [of ident] by (intro filepath_Join_name) auto

lemma os_Stat_parent_Dir:
  assumes "os_Stat w (d @ [name]) = Inr n" and "os_Stat w d \<noteq> Inl ENOENT"
  shows "os_Stat w d = Inr Dir"
proof -
  have sp: "strict_prefix d (d @ [name])" by (simp add: strict_prefix_def)
  from assms(1) have clean: "\<And>q. strict_prefix q (d @ [name]) \<Longrightarrow> \<not> is_file (lookup w q)"
    by (simp add: os_Stat_Inr_iff)
  have above: "\<not> is_file (lookup w q)" if "strict_prefix q d" for q
  proof (rule clean)
    from that sp show "strict_prefix q (d @ [name])"
      by (rule prefix_order.less_trans)
  qed
  from clean [OF sp] have here: "\<not> is_file (lookup w d)" .
  from above have "\<not> (\<exists>q \<in> set (butlast (prefixes d)). is_file (lookup w q))"
    by (simp add: set_butlast_prefixes)
  then have "os_Stat w d = (case lookup w d of None \<Rightarrow> Inl ENOENT | Some n \<Rightarrow> Inr n)"
    by (simp only: os_Stat_def if_False)
  with assms(2) obtain m where m: "lookup w d = Some m"
    by (cases "lookup w d") auto
  with here have "m = Dir" by (cases m) (simp_all add: is_file_def)
  with m above show ?thesis by (simp add: os_Stat_Inr_iff)
qed

text \<open>
  C8 (as the code has it). \<open>GetCollector\<close> joins the identifier to the directory, so an
  identifier with a \<^verbatim>\<open>/\<close> names a file below or outside the directory, which
  \<open>GetCollectors\<close> does not list. For an identifier without \<^verbatim>\<open>/\<close>, a directory whose
  name has no pattern character and that can be listed: when \<open>GetCollector\<close> returns a
  definition, \<open>GetCollectors\<close> on the same directory returns a list that holds this very
  definition. Its id is the one of the document, which need not be the identifier.
\<close>

theorem GetCollector_in_GetCollectors:
  assumes "CHR ''/'' \<notin> set ident"
    and "\<forall>c \<in> set (CONFIGURATIONS_DIR S). \<not> hasMeta c"
    and "CONFIGURATIONS_DIR S \<notin> set (unlistable w)"
    and "GetCollector S ident w = (Inr c, w1)"
  shows "\<exists>cs w2. GetCollectors S w1 = (Inr cs, w2) \<and> c \<in> set cs"
proof -
  let ?dir = "CONFIGURATIONS_DIR S"
  let ?name = "ident @ ''.toml''"
  from assms(1,4) have there: "os_Stat w ?dir \<noteq> Inl ENOENT"
    and load: "newCollectorFromPath S (?dir @ [?name]) w = (Inr c, w1)"
    by (simp_all add: GetCollector_Inr_iff filepath_Join_toml)
  from load have w1: "w1 = w"
    by (simp add: newCollectorFromPath_Inr_iff)
  from load obtain config where "os_ReadFile w (?dir @ [?name]) = Inr config"
    by (auto simp: newCollectorFromPath_Inr_iff)
  then have isfile: "os_Stat w (?dir @ [?name]) = Inr (File config)"
    and listed: "?name \<in> set (Readdirnames w ?dir)"
    by (simp_all add: os_ReadFile_Inr_iff os_ReadFile_listed)
  from isfile there have dir: "os_Stat w ?dir = Inr Dir" by (rule os_Stat_parent_Dir)
  from listed have "?dir @ [?name] \<in> set (glob_dir w ?dir)"
    by (simp add: glob_dir_listed [OF dir assms(3)])
  moreover from GetCollectors_loads [OF there assms(2)] obtain cs w2
    where run: "GetCollectors S w = (Inr cs, w2)"
      and cs: "set cs = {c. \<exists>f \<in> set (glob_dir w ?dir).
                      fst (newCollectorFromPath S f w) = Inr c}"
    by blast
  ultimately have "c \<in> set cs" using load by force
  with run w1 show ?thesis by blast
qed

theorem GetCollector_in_GetCollectors_witness:
  "CHR ''/'' \<notin> set ''mock''
   \<and> GetCollector sample_sys ''mock'' sample_world = (Inr mock_Collector, sample_world)
   \<and> \<not> isl (fst (GetCollectors sample_sys sample_world))
   \<and> mock_Collector \<in> set (projr (fst (GetCollectors sample_sys sample_world)))"
proof -
  have ident: "CHR ''/'' \<notin> set ''mock''" by simp
  have plain: "\<forall>c \<in> set (CONFIGURATIONS_DIR sample_sys). \<not> hasMeta c"
    by code_simp
  have open_dir: "CONFIGURATIONS_DIR sample_sys \<notin> set (unlistable sample_world)"
    by code_simp
  have mock: "GetCollector sample_sys ''mock'' sample_world = (Inr mock_Collector, sample_world)"
    by code_simp
  from GetCollector_in_GetCollectors [OF ident plain open_dir mock] obtain cs w2
    where "GetCollectors sample_sys sample_world = (Inr cs, w2)" "mock_Collector \<in> set cs"
    by blast
  with ident mock show ?thesis by simp
qed

text \<open>
  C8 as it is written fails in four ways. \<^verbatim>\<open>sub/deep\<close> is loaded from
  \<^verbatim>\<open>sub/deep.toml\<close>, with the id \<^verbatim>\<open>deep\<close>, and the list of all definitions has no
  definition of either name. \<^verbatim>\<open>copy\<close> is loaded from \<^verbatim>\<open>copy.toml\<close>, with the id
  \<^verbatim>\<open>mock\<close>: the list holds that definition, and no definition with the id \<^verbatim>\<open>copy\<close>.
  And \<^verbatim>\<open>mock\<close> is loaded from a directory that cannot be listed, and from a directory
  with a pattern character in its name, and the list of all definitions is empty.
\<close>

theorem GetCollector_in_GetCollectors_counterexample:
  "fst (GetCollector sample_sys ''sub/deep'' sample_world) =
     Inr (zero_Collector\<lparr>Meta_ID := ''deep'', Exec_Command := ''/bin/true'',
                         Generated_Path := [''etc'', ''sub'', ''deep.toml'']\<rparr>)
   \<and> fst (GetCollector sample_sys ''copy'' sample_world) =
       Inr (mock_Collector\<lparr>Generated_Path := [''etc'', ''copy.toml'']\<rparr>)
   \<and> map Meta_ID (projr (fst (GetCollectors sample_sys sample_world))) =
       [''cat'', ''mock'', [], ''mock'']
   \<and> map Generated_Path (projr (fst (GetCollectors sample_sys sample_world))) =
       [[''etc'', ''cat.toml''], [''etc'', ''copy.toml''], [''etc'', ''empty.toml''],
        [''etc'', ''mock.toml'']]
   \<and> fst (GetCollector sample_sys ''mock'' unlistable_world) = Inr mock_Collector
   \<and> fst (GetCollectors sample_sys unlistable_world) = Inr []
   \<and> fst (GetCollector bracket_sys ''mock'' bracket_world) =
       Inr (mock_Collector\<lparr>Generated_Path := [''c[1]'', ''mock.toml'']\<rparr>)
   \<and> fst (GetCollectors bracket_sys bracket_world) = Inr []"
  by code_simp

lemma nonempty_tokens_Nil:
  assumes "nonempty_tokens command = []"
  shows "\<exists>args. strings_Split command CHR '' '' = [] # args"
proof -
  obtain name args where split: "strings_Split command CHR '' '' = name # args"
    using strings_Split_nonempty [of command "CHR '' ''"]
    by (cases "strings_Split command CHR '' ''") auto
  with assms have "name = []"
    by (auto simp: nonempty_tokens_def split: if_splits)
  with split show ?thesis by simp
qed

text \<open>
  C2 (as the code has it). Loading does not look at the command. A file that can be read
  and whose content decodes is loaded, whatever its command is; loading fails with
  ``cannot parse collector configuration'' only when the content does not decode. A
  definition whose command has no non-empty token (the empty command, a command of spaces)
  reaches \<open>Collect_go\<close>, which makes the directory and then fails at the launch, with the
  error of the launcher for an empty name.
\<close>

theorem loading_ignores_command:
  "(os_ReadFile w path = Inr config \<and> toml_Decode S config = Some cc \<longrightarrow>
      newCollectorFromPath S path w = (Inr (cc\<lparr>Generated_Path := path\<rparr>), w))
   \<and> (os_ReadFile w path = Inr config \<and> toml_Decode S config = None \<longrightarrow>
        fst (newCollectorFromPath S path w) = Inl CannotParseConfiguration)
   \<and> (nonempty_tokens (Exec_Command c) = [] \<and>
        generateCollectionDirectory S c w = (Inr tempdir, w1) \<longrightarrow>
        Collect_go S c w =
          (Inl (CouldNotRunCollector ''exec: no command''),
           emit (Error_could_not_run_collector ''exec: no command'' []) w1))"
proof (intro conjI impI)
  show "newCollectorFromPath S path w = (Inr (cc\<lparr>Generated_Path := path\<rparr>), w)"
    if "os_ReadFile w path = Inr config \<and> toml_Decode S config = Some cc"
    using that by (subst newCollectorFromPath_Inr_iff) blast
  show "fst (newCollectorFromPath S path w) = Inl CannotParseConfiguration"
    if "os_ReadFile w path = Inr config \<and> toml_Decode S config = None"
    using that
    by (auto simp: newCollectorFromPath_def newCollectorFromConfiguration_def os_ReadFile_def
        split: sum.splits node.splits)
  show "Collect_go S c w =
          (Inl (CouldNotRunCollector ''exec: no command''),
           emit (Error_could_not_run_collector ''exec: no command'' []) w1)"
    if "nonempty_tokens (Exec_Command c) = [] \<and>
        generateCollectionDirectory S c w = (Inr tempdir, w1)"
  proof -
    from that obtain args where "strings_Split (Exec_Command c) CHR '' '' = [] # args"
      using nonempty_tokens_Nil by blast
    with that show ?thesis
      by (simp add: Collect_go_def cmd_Run_empty_name)
  qed
qed

theorem loading_ignores_command_witness:
  "os_ReadFile sample_world [''etc'', ''empty.toml''] = Inr []
   \<and> toml_Decode sample_sys [] = Some zero_Collector
   \<and> newCollectorFromPath sample_sys [''etc'', ''empty.toml''] sample_world =
       (Inr (zero_Collector\<lparr>Generated_Path := [''etc'', ''empty.toml'']\<rparr>), sample_world)
   \<and> os_ReadFile sample_world [''etc'', ''broken.toml''] = Inr broken_toml
   \<and> toml_Decode sample_sys broken_toml = None
   \<and> fst (newCollectorFromPath sample_sys [''etc'', ''broken.toml''] sample_world) =
       Inl CannotParseConfiguration
   \<and> nonempty_tokens (Exec_Command spaces_Collector) = []
   \<and> fst (Collect_go sample_sys spaces_Collector sample_world) =
       Inl (CouldNotRunCollector ''exec: no command'')"
proof -
  have empty: "os_ReadFile sample_world [''etc'', ''empty.toml''] = Inr [] \<and>
      toml_Decode sample_sys [] = Some zero_Collector"
    by code_simp
  have broken: "os_ReadFile sample_world [''etc'', ''broken.toml''] = Inr broken_toml \<and>
      toml_Decode sample_sys broken_toml = None"
    by code_simp
  define w1 where "w1 = snd (generateCollectionDirectory sample_sys spaces_Collector sample_world)"
  have "fst (generateCollectionDirectory sample_sys spaces_Collector sample_world) = Inr [''tmp'', ''sp-1'']"
    by code_simp
  then have made: "generateCollectionDirectory sample_sys spaces_Collector sample_world =
      (Inr [''tmp'', ''sp-1''], w1)"
    by (simp add: prod_eq_iff w1_def)
  have spaces: "nonempty_tokens (Exec_Command spaces_Collector) = []"
    by code_simp
  from loading_ignores_command
         [of sample_world "[''etc'', ''empty.toml'']" "[]" sample_sys zero_Collector]
       empty
  have one: "newCollectorFromPath sample_sys [''etc'', ''empty.toml''] sample_world =
       (Inr (zero_Collector\<lparr>Generated_Path := [''etc'', ''empty.toml'']\<rparr>), sample_world)"
    by blast
  from loading_ignores_command
         [of sample_world "[''etc'', ''broken.toml'']" broken_toml sample_sys]
       broken
  have two: "fst (newCollectorFromPath sample_sys [''etc'', ''broken.toml''] sample_world) =
       Inl CannotParseConfiguration"
    by blast
  from loading_ignores_command
         [of sample_world _ _ sample_sys _ spaces_Collector "[''tmp'', ''sp-1'']" w1]
       spaces made
  have "Collect_go sample_sys spaces_Collector sample_world =
          (Inl (CouldNotRunCollector ''exec: no command''),
           emit (Error_could_not_run_collector ''exec: no command'' []) w1)"
    by blast
  then have three: "fst (Collect_go sample_sys spaces_Collector sample_world) =
       Inl (CouldNotRunCollector ''exec: no command'')"
    by simp
  from empty broken spaces one two three show ?thesis by blast
qed

text \<open>
  C2 as it is written fails: the empty document has no command, its command has no
  non-empty token, and it is loaded; the run reaches the collection, which makes the
  directory before the launch fails.
\<close>

theorem loading_ignores_command_counterexample:
  "toml_Decode sample_sys [] = Some zero_Collector
   \<and> nonempty_tokens (Exec_Command zero_Collector) = []
   \<and> fst (GetCollector sample_sys ''empty'' sample_world) =
       Inr (zero_Collector\<lparr>Generated_Path := [''etc'', ''empty.toml'']\<rparr>)
   \<and> fst (doRun sample_sys False False ''empty'' sample_world) =
       Inl (CouldNotRunCollector ''exec: no command'')
   \<and> path_exists (snd (doRun sample_sys False False ''empty'' sample_world)) [''tmp'', ''-1'']"
  by code_simp

lemma SetLastRun_read:
  assumes "SetLastRun S c v = (None, v')"
  shows "os_ReadFile v' (last_run_file S c) = Inr (FormatInt (Unix v))"
proof -
  from assms have "os_WriteFile v (last_run_file S c) (FormatInt (Unix v)) = (None, v')"
    by (auto simp: SetLastRun_def Let_def split: prod.splits option.splits)
  then show ?thesis by (rule os_WriteFile_read)
qed

text \<open>
  C6 (as the code has it). The id of a definition is the value of \<^verbatim>\<open>meta.id\<close> in its
  document; the name of the file plays no part in it. \<open>GetCollector\<close> reads the file
  \<^verbatim>\<open>ident.toml\<close> of the directory and returns what the document decodes to, with the
  path of the file. The id of the document is what the record of the last run and the
  output directory are named after: \<open>SetLastRun\<close> writes the file \<^verbatim>\<open>id.last-run\<close> of the
  cache directory, and \<open>generateCollectionDirectory\<close> makes the directory
  \<^verbatim>\<open>id-time\<close> of the collections directory.
\<close>

theorem id_comes_from_document:
  assumes "GetCollector S ident w = (Inr c, w')"
  shows "\<exists>config cc.
           os_ReadFile w (filepath_Join (CONFIGURATIONS_DIR S) (ident @ ''.toml'')) = Inr config
         \<and> toml_Decode S config = Some cc
         \<and> Meta_ID c = Meta_ID cc
         \<and> Generated_Path c = filepath_Join (CONFIGURATIONS_DIR S) (ident @ ''.toml'')
         \<and> (\<forall>v v'. SetLastRun S c v = (None, v') \<longrightarrow>
               os_ReadFile v' (filepath_Join (CACHE_DIR S) (Meta_ID cc @ ''.last-run'')) =
                 Inr (FormatInt (Unix v)))
         \<and> (\<forall>v d v'. generateCollectionDirectory S c v = (Inr d, v') \<longrightarrow>
               d = filepath_Join (COLLECTIONS_DIR S) (Meta_ID cc @ ''-'' @ FormatInt (Unix v)))"
proof -
  let ?file = "filepath_Join (CONFIGURATIONS_DIR S) (ident @ ''.toml'')"
  from assms obtain config cc
    where read: "os_ReadFile w ?file = Inr config" and dec: "toml_Decode S config = Some cc"
      and c: "c = cc\<lparr>Generated_Path := ?file\<rparr>"
    by (auto simp: GetCollector_Inr_iff newCollectorFromPath_Inr_iff)
  from c have id: "Meta_ID c = Meta_ID cc" and path: "Generated_Path c = ?file"
    by simp_all
  have cache: "os_ReadFile v' (filepath_Join (CACHE_DIR S) (Meta_ID cc @ ''.last-run'')) =
                 Inr (FormatInt (Unix v))"
    if "SetLastRun S c v = (None, v')" for v v'
    using SetLastRun_read [OF that] by (simp add: last_run_file_def id)
  have dir: "d = filepath_Join (COLLECTIONS_DIR S) (Meta_ID cc @ ''-'' @ FormatInt (Unix v))"
    if "generateCollectionDirectory S c v = (Inr d, v')" for v d v'
    using generateCollectionDirectory_frame(3) [OF that] by (simp add: collection_directory_def id)
  from read dec id path cache dir show ?thesis by blast
qed

theorem id_comes_from_document_witness:
  "GetCollector sample_sys ''copy'' sample_world =
     (Inr (mock_Collector\<lparr>Generated_Path := [''etc'', ''copy.toml'']\<rparr>), sample_world)
   \<and> os_ReadFile
         (snd (SetLastRun sample_sys (mock_Collector\<lparr>Generated_Path := [''etc'', ''copy.toml'']\<rparr>)
                 sample_world))
         (filepath_Join (CACHE_DIR sample_sys) ''mock.last-run'') = Inr ''1''
   \<and> fst (generateCollectionDirectory sample_sys
             (mock_Collector\<lparr>Generated_Path := [''etc'', ''copy.toml'']\<rparr>) sample_world) =
       Inr (filepath_Join (COLLECTIONS_DIR sample_sys) ''mock-1'')"
proof -
  let ?c = "mock_Collector\<lparr>Generated_Path := [''etc'', ''copy.toml'']\<rparr>"
  define v1 where "v1 = snd (SetLastRun sample_sys ?c sample_world)"
  define v2 where "v2 = snd (generateCollectionDirectory sample_sys ?c sample_world)"
  have copy: "GetCollector sample_sys ''copy'' sample_world = (Inr ?c, sample_world)"
    by code_simp
  have "fst (SetLastRun sample_sys ?c sample_world) = None"
    by code_simp
  then have written: "SetLastRun sample_sys ?c sample_world = (None, v1)"
    by (simp add: prod_eq_iff v1_def)
  have "fst (generateCollectionDirectory sample_sys ?c sample_world) = Inr [''tmp'', ''mock-1'']"
    by code_simp
  then have made: "generateCollectionDirectory sample_sys ?c sample_world = (Inr [''tmp'', ''mock-1''], v2)"
    by (simp add: prod_eq_iff v2_def)
  have now: "FormatInt (Unix sample_world) = ''1''"
    by code_simp
  from id_comes_from_document [OF copy] obtain cc
    where id: "Meta_ID ?c = Meta_ID (cc :: Collector)"
      and cache: "\<forall>v v'. SetLastRun sample_sys ?c v = (None, v') \<longrightarrow>
               os_ReadFile v' (filepath_Join (CACHE_DIR sample_sys) (Meta_ID cc @ ''.last-run'')) =
                 Inr (FormatInt (Unix v))"
      and dir: "\<forall>v d v'. generateCollectionDirectory sample_sys ?c v = (Inr d, v') \<longrightarrow>
               d = filepath_Join (COLLECTIONS_DIR sample_sys) (Meta_ID cc @ ''-'' @ FormatInt (Unix v))"
    by blast
  from id have cc: "Meta_ID cc = ''mock''"
    by (simp add: mock_Collector_def)
  from cache written
  have "os_ReadFile v1 (filepath_Join (CACHE_DIR sample_sys) (Meta_ID cc @ ''.last-run'')) =
          Inr (FormatInt (Unix sample_world))"
    by blast
  then have one:
    "os_ReadFile v1 (filepath_Join (CACHE_DIR sample_sys) ''mock.last-run'') = Inr ''1''"
    by (simp add: cc now)
  from dir made
  have "[''tmp'', ''mock-1''] =
          filepath_Join (COLLECTIONS_DIR sample_sys) (Meta_ID cc @ ''-'' @ FormatInt (Unix sample_world))"
    by blast
  then have two:
    "[''tmp'', ''mock-1''] = filepath_Join (COLLECTIONS_DIR sample_sys) ''mock-1''"
    by (simp add: cc now)
  from copy one two made show ?thesis
    by (simp add: v1_def)
qed

text \<open>
  C6 as it is written fails: the file \<^verbatim>\<open>copy.toml\<close> holds the document of \<^verbatim>\<open>mock\<close>, and
  the definition loaded from it has the id \<^verbatim>\<open>mock\<close>, not \<^verbatim>\<open>copy\<close>.
\<close>

theorem id_comes_from_document_counterexample:
  "fst (GetCollector sample_sys ''copy'' sample_world) =
     Inr (mock_Collector\<lparr>Generated_Path := [''etc'', ''copy.toml'']\<rparr>)
   \<and> Meta_ID (mock_Collector\<lparr>Generated_Path := [''etc'', ''copy.toml'']\<rparr>) = ''mock''
   \<and> ''mock'' \<noteq> ''copy''"
  by code_simp

subsection \<open>Collection and the record of the last run\<close>

lemma GetLastRun_Inr_iff:
  "fst (GetLastRun S c w) = Inr t \<longleftrightarrow>
     (\<exists>raw. os_ReadFile w (last_run_file S c) = Inr raw \<and> ParseInt raw = Some t)"
  by (auto simp: GetLastRun_def Let_def split: sum.splits option.splits)

lemma cmd_Run_exit:
  assumes "name \<noteq> []" and "process S name args env w = ((Exit n, stderr), w')"
  shows "cmd_Run S name args env w =
           ((if n = 0 then None else Some (''exit status '' @ FormatUint n), stderr), w')"
  using assms by (simp add: cmd_Run_def)

text \<open>
  C4 (as the code has it). When the command ends with a status \<open>n\<close> other than 0,
  \<open>Collect_go\<close> returns the error ``could not run collector: exit status \<open>n\<close>''. The error
  holds the status; what the command wrote to standard error goes into the record of the
  error log and not into the error. \<open>Collect_go\<close> writes nothing after the command has
  ended: the file system is as the command left it. So when the command does not touch the
  record of the last run, the record reads after the call as it read before it.
\<close>

theorem Collect_nonzero_exit:
  assumes "strings_Split (Exec_Command c) CHR '' '' = name # args" and "name \<noteq> []"
    and "generateCollectionDirectory S c w = (Inr d, w1)"
    and "process S name args (os_Environ S @ [''COLLECTION_DIRECTORY='' @ path_str d]) w1 =
           ((Exit n, stderr), w2)"
    and "n \<noteq> 0"
  shows "Collect_go S c w =
           (Inl (CouldNotRunCollector (''exit status '' @ FormatUint n)),
            emit (Error_could_not_run_collector (''exit status '' @ FormatUint n) stderr) w2)
       \<and> fs (snd (Collect_go S c w)) = fs w2
       \<and> (os_ReadFile w2 (last_run_file S c) = os_ReadFile w1 (last_run_file S c) \<longrightarrow>
            (\<forall>t. (fst (GetLastRun S c (snd (Collect_go S c w))) = Inr t) =
                 (fst (GetLastRun S c w) = Inr t)))"
proof -
  let ?err = "''exit status '' @ FormatUint n"
  have run: "Collect_go S c w =
      (Inl (CouldNotRunCollector ?err), emit (Error_could_not_run_collector ?err stderr) w2)"
    using assms by (simp add: Collect_go_def cmd_Run_exit)
  have same: "(fst (GetLastRun S c (snd (Collect_go S c w))) = Inr t) =
              (fst (GetLastRun S c w) = Inr t)"
    if "os_ReadFile w2 (last_run_file S c) = os_ReadFile w1 (last_run_file S c)" for t
  proof -
    have "(os_ReadFile w2 (last_run_file S c) = Inr raw) =
          (os_ReadFile w (last_run_file S c) = Inr raw)" for raw
      using that generateCollectionDirectory_frame(2) [OF assms(3)] by simp
    then show ?thesis
      by (simp add: run GetLastRun_Inr_iff)
  qed
  from run same show ?thesis by simp
qed

theorem Collect_nonzero_exit_witness:
  "strings_Split (Exec_Command cat_Collector) CHR '' '' = [''/bin/cat'', ''/x'']
   \<and> fst (generateCollectionDirectory sample_sys cat_Collector recorded_world) =
       Inr [''tmp'', ''cat-1'']
   \<and> fst (Collect_go sample_sys cat_Collector recorded_world) =
       Inl (CouldNotRunCollector ''exit status 1'')
   \<and> fst (GetLastRun sample_sys cat_Collector recorded_world) = Inr 7
   \<and> fst (GetLastRun sample_sys cat_Collector
            (snd (Collect_go sample_sys cat_Collector recorded_world))) = Inr 7"
proof -
  let ?env = "os_Environ sample_sys @ [''COLLECTION_DIRECTORY='' @ path_str [''tmp'', ''cat-1'']]"
  define w1 where "w1 = snd (generateCollectionDirectory sample_sys cat_Collector recorded_world)"
  define w2 where "w2 = snd (process sample_sys ''/bin/cat'' [''/x''] ?env w1)"
  have split: "strings_Split (Exec_Command cat_Collector) CHR '' '' = [''/bin/cat'', ''/x'']"
    by code_simp
  have name: "''/bin/cat'' \<noteq> []" by simp
  have made: "fst (generateCollectionDirectory sample_sys cat_Collector recorded_world) =
      Inr [''tmp'', ''cat-1'']"
    by code_simp
  then have gen: "generateCollectionDirectory sample_sys cat_Collector recorded_world =
      (Inr [''tmp'', ''cat-1''], w1)"
    by (simp add: prod_eq_iff w1_def)
  have "fst (process sample_sys ''/bin/cat'' [''/x''] ?env w1) =
      (Exit 1, ''/bin/cat: /x: No such file or directory\<newline>'')"
    unfolding w1_def by code_simp
  then have ran: "process sample_sys ''/bin/cat'' [''/x''] ?env w1 =
      ((Exit 1, ''/bin/cat: /x: No such file or directory\<newline>''), w2)"
    by (simp add: prod_eq_iff w2_def)
  have status: "(1::nat) \<noteq> 0" by simp
  have msg: "''exit status '' @ FormatUint 1 = ''exit status 1''"
    by code_simp
  have untouched: "os_ReadFile w2 (last_run_file sample_sys cat_Collector) =
      os_ReadFile w1 (last_run_file sample_sys cat_Collector)"
    unfolding w2_def w1_def by code_simp
  have before: "fst (GetLastRun sample_sys cat_Collector recorded_world) = Inr 7"
    by code_simp
  note inst = Collect_nonzero_exit [OF split name gen ran status]
  from inst have "fst (Collect_go sample_sys cat_Collector recorded_world) =
      Inl (CouldNotRunCollector (''exit status '' @ FormatUint 1))"
    by simp
  then have failed: "fst (Collect_go sample_sys cat_Collector recorded_world) =
      Inl (CouldNotRunCollector ''exit status 1'')"
    by (simp only: msg)
  from inst untouched before
  have after: "fst (GetLastRun sample_sys cat_Collector
            (snd (Collect_go sample_sys cat_Collector recorded_world))) = Inr 7"
    by blast
  from split made failed before after show ?thesis by blast
qed

text \<open>
  C4 as it is written fails: the error that \<open>Collect_go\<close> returns holds the exit status
  and nothing of what the command wrote to standard error, which is in the log only.
\<close>

theorem Collect_nonzero_exit_counterexample:
  "fst (Collect_go sample_sys cat_Collector sample_world) =
     Inl (CouldNotRunCollector ''exit status 1'')
   \<and> logged (snd (Collect_go sample_sys cat_Collector sample_world)) =
       [Error_could_not_run_collector ''exit status 1''
          ''/bin/cat: /x: No such file or directory\<newline>'']"
  by code_simp

lemma os_WriteFile_other:
  "os_WriteFile w p s = (r, w') \<Longrightarrow> q \<noteq> p \<Longrightarrow> lookup w' q = lookup w q"
  by (auto simp: os_WriteFile_def lookup_def update_conv'
           split: sum.splits node.splits if_splits option.splits)

lemma SetLastRun_frame:
  assumes "SetLastRun S c v = (r, v')"
  shows "clock v' = clock v" and "logged v' = logged v"
    and "q \<noteq> last_run_file S c \<Longrightarrow> lookup v' q = lookup v q"
proof -
  obtain e u where wr: "os_WriteFile v (last_run_file S c) (FormatInt (Unix v)) = (e, u)"
    by (cases "os_WriteFile v (last_run_file S c) (FormatInt (Unix v))")
  with assms have u: "v' = u"
    by (auto simp: SetLastRun_def Let_def split: option.splits)
  from os_WriteFile_frame [OF wr] u show "clock v' = clock v" and "logged v' = logged v"
    by simp_all
  from os_WriteFile_other [OF wr] u show "lookup v' q = lookup v q" if "q \<noteq> last_run_file S c"
    using that by simp
qed

lemma Collect_exit_zero:
  assumes "strings_Split (Exec_Command c) CHR '' '' = name # args" and "name \<noteq> []"
    and "generateCollectionDirectory S c w = (Inr d, w1)"
    and "process S name args (os_Environ S @ [''COLLECTION_DIRECTORY='' @ path_str d]) w1 =
           ((Exit 0, stderr), w2)"
  shows "Collect_go S c w =
           (Inr d,
            case SetLastRun S c w2 of
              (None, w3) \<Rightarrow> w3
            | (Some err, w3) \<Rightarrow>
                emit (Error_cannot_update_collection_timestamp (Meta_ID c) err) w3)"
  using assms
  by (simp add: Collect_go_def cmd_Run_exit split: prod.splits option.splits)

text \<open>
  C5 (as the code has it). When the command ends with status 0, \<open>Collect_go\<close> succeeds,
  whether or not the record of the last run can be written. When it can be written, the
  record holds the Unix time, in whole seconds, at which the command ended, and
  \<open>GetLastRun\<close> afterwards returns that time (the clock of the model has no bound; the Unix
  time is taken to fit 64 bits, as the result of \<^verbatim>\<open>Unix()\<close> does). When it cannot be
  written, the error is logged, and that is the one line logged after the command. In
  both cases every entry of the file system other than the record is as the command left
  it, and the Unix time at the end of the call is the one at which the command ended. If
  the clock has not gone back while the command ran, the time recorded is no less than
  the Unix time at the start of the call.
\<close>

theorem Collect_records_last_run:
  assumes "strings_Split (Exec_Command c) CHR '' '' = name # args" and "name \<noteq> []"
    and "generateCollectionDirectory S c w = (Inr d, w1)"
    and "process S name args (os_Environ S @ [''COLLECTION_DIRECTORY='' @ path_str d]) w1 =
           ((Exit 0, stderr), w2)"
  shows "fst (Collect_go S c w) = Inr d
       \<and> (fst (SetLastRun S c w2) = None \<longrightarrow>
            snd (Collect_go S c w) = snd (SetLastRun S c w2)
            \<and> os_ReadFile (snd (Collect_go S c w)) (last_run_file S c) =
                Inr (FormatInt (Unix w2))
            \<and> (- (2 ^ 63) \<le> Unix w2 \<and> Unix w2 < 2 ^ 63 \<longrightarrow>
                 fst (GetLastRun S c (snd (Collect_go S c w))) = Inr (Unix w2)))
       \<and> (\<forall>err. fst (SetLastRun S c w2) = Some err \<longrightarrow>
            snd (Collect_go S c w) =
              emit (Error_cannot_update_collection_timestamp (Meta_ID c) err)
                (snd (SetLastRun S c w2))
            \<and> logged (snd (Collect_go S c w)) =
                logged w2 @ [Error_cannot_update_collection_timestamp (Meta_ID c) err])
       \<and> (\<forall>q. q \<noteq> last_run_file S c \<longrightarrow>
            lookup (snd (Collect_go S c w)) q = lookup w2 q)
       \<and> Unix (snd (Collect_go S c w)) = Unix w2
       \<and> (clock w1 \<le> clock w2 \<longrightarrow> Unix w \<le> Unix w2)"
proof -
  note run = Collect_exit_zero [OF assms]
  obtain r w3 where set: "SetLastRun S c w2 = (r, w3)"
    by (cases "SetLastRun S c w2")
  note frame = SetLastRun_frame [OF set]
  have ok: "fst (Collect_go S c w) = Inr d"
    by (simp add: run)
  have written: "snd (Collect_go S c w) = snd (SetLastRun S c w2)
            \<and> os_ReadFile (snd (Collect_go S c w)) (last_run_file S c) =
                Inr (FormatInt (Unix w2))
            \<and> (- (2 ^ 63) \<le> Unix w2 \<and> Unix w2 < 2 ^ 63 \<longrightarrow>
                 fst (GetLastRun S c (snd (Collect_go S c w))) = Inr (Unix w2))"
    if "fst (SetLastRun S c w2) = None"
  proof -
    from that set have set': "SetLastRun S c w2 = (None, w3)" by simp
    then have final: "snd (Collect_go S c w) = w3" by (simp add: run)
    have stored: "os_ReadFile w3 (last_run_file S c) = Inr (FormatInt (Unix w2))"
      using set' by (rule SetLastRun_read)
    have "fst (GetLastRun S c w3) = Inr (Unix w2)"
      if "- (2 ^ 63) \<le> Unix w2 \<and> Unix w2 < 2 ^ 63"
    proof -
      from that have "ParseInt (FormatInt (Unix w2)) = Some (Unix w2)"
        by (simp add: ParseInt_FormatInt)
      with stored show ?thesis
        by (subst GetLastRun_Inr_iff) blast
    qed
    with stored show ?thesis by (simp add: final set')
  qed
  have failed: "snd (Collect_go S c w) =
              emit (Error_cannot_update_collection_timestamp (Meta_ID c) err)
                (snd (SetLastRun S c w2))
            \<and> logged (snd (Collect_go S c w)) =
                logged w2 @ [Error_cannot_update_collection_timestamp (Meta_ID c) err]"
    if "fst (SetLastRun S c w2) = Some err" for err
  proof -
    from that set have set': "SetLastRun S c w2 = (Some err, w3)" by simp
    then show ?thesis by (simp add: run frame(2) emit_def)
  qed
  have final: "snd (Collect_go S c w) = w3 \<or> (\<exists>l. snd (Collect_go S c w) = emit l w3)"
    using set by (cases r) (auto simp: run)
  have others: "lookup (snd (Collect_go S c w)) q = lookup w2 q"
    if "q \<noteq> last_run_file S c" for q
    using final frame(3) [OF that] by (auto simp: lookup_def emit_def)
  have "clock (snd (Collect_go S c w)) = clock w2"
    using final frame(1) by (auto simp: emit_def)
  then have now: "Unix (snd (Collect_go S c w)) = Unix w2"
    by (simp add: Unix_def)
  have "clock w = clock w1"
    using generateCollectionDirectory_frame(1) [OF assms(3)] by simp
  then have start: "Unix w \<le> Unix w2" if "clock w1 \<le> clock w2"
    using that by (simp add: Unix_def zdiv_mono1)
  from ok written failed others now start show ?thesis by blast
qed

theorem Collect_records_last_run_witness:
  "fst (Collect_go sample_sys mock_Collector sample_world) = Inr [''tmp'', ''mock-1'']
   \<and> os_ReadFile (snd (Collect_go sample_sys mock_Collector sample_world))
        [''tmp'', ''mock.last-run''] = Inr ''1''
   \<and> fst (GetLastRun sample_sys mock_Collector
            (snd (Collect_go sample_sys mock_Collector sample_world))) = Inr 1
   \<and> Unix sample_world \<le> 1
   \<and> Unix (snd (Collect_go sample_sys mock_Collector sample_world)) = 1
   \<and> lookup (snd (Collect_go sample_sys mock_Collector sample_world)) [''etc'', ''mock.toml'']
       = Some (File mock_toml)
   \<and> fst (Collect_go sample_sys mock_Collector locked_world) = Inr [''tmp'', ''mock-1'']
   \<and> logged (snd (Collect_go sample_sys mock_Collector locked_world)) =
       [Error_cannot_update_collection_timestamp ''mock''
          (PathError EACCES [''tmp'', ''mock.last-run''])]"
proof -
  let ?d = "[''tmp'', ''mock-1'']"
  let ?env = "os_Environ sample_sys @ [''COLLECTION_DIRECTORY='' @ path_str ?d]"
  have split: "strings_Split (Exec_Command mock_Collector) CHR '' '' = [''/bin/true'']"
    by code_simp
  have name: "''/bin/true'' \<noteq> []" by simp
  have recfile: "last_run_file sample_sys mock_Collector = [''tmp'', ''mock.last-run'']"
    by code_simp
  txt \<open>The record can be written.\<close>
  define w1 where "w1 = snd (generateCollectionDirectory sample_sys mock_Collector sample_world)"
  define w2 where "w2 = snd (process sample_sys ''/bin/true'' [] ?env w1)"
  have "fst (generateCollectionDirectory sample_sys mock_Collector sample_world) = Inr ?d"
    by code_simp
  then have gen: "generateCollectionDirectory sample_sys mock_Collector sample_world = (Inr ?d, w1)"
    by (simp add: prod_eq_iff w1_def)
  have "fst (process sample_sys ''/bin/true'' [] ?env w1) = (Exit 0, [])"
    unfolding w1_def by code_simp
  then have ran: "process sample_sys ''/bin/true'' [] ?env w1 = ((Exit 0, []), w2)"
    by (simp add: prod_eq_iff w2_def)
  have now: "clock w1 = 1500000000 \<and> clock w2 = 1501000000"
    unfolding w2_def w1_def by code_simp
  then have unix: "Unix w2 = 1" by (simp add: Unix_def)
  have forward: "clock w1 \<le> clock w2" using now by simp
  have range: "- (2 ^ 63) \<le> Unix w2 \<and> Unix w2 < 2 ^ 63" using unix by simp
  have digits: "FormatInt 1 = ''1''"
    by code_simp
  have stored: "fst (SetLastRun sample_sys mock_Collector w2) = None"
    unfolding w2_def w1_def by code_simp
  have other: "[''etc'', ''mock.toml''] \<noteq> last_run_file sample_sys mock_Collector"
    by (simp add: recfile)
  have kept: "lookup w2 [''etc'', ''mock.toml''] = Some (File mock_toml)"
    unfolding w2_def w1_def by code_simp
  from Collect_records_last_run [OF split name gen ran] stored range forward other
  have "fst (Collect_go sample_sys mock_Collector sample_world) = Inr ?d
      \<and> os_ReadFile (snd (Collect_go sample_sys mock_Collector sample_world))
          (last_run_file sample_sys mock_Collector) = Inr (FormatInt (Unix w2))
      \<and> fst (GetLastRun sample_sys mock_Collector
            (snd (Collect_go sample_sys mock_Collector sample_world))) = Inr (Unix w2)
      \<and> Unix sample_world \<le> Unix w2
      \<and> Unix (snd (Collect_go sample_sys mock_Collector sample_world)) = Unix w2
      \<and> lookup (snd (Collect_go sample_sys mock_Collector sample_world)) [''etc'', ''mock.toml'']
          = lookup w2 [''etc'', ''mock.toml'']"
    by blast
  then have one: "fst (Collect_go sample_sys mock_Collector sample_world) = Inr ?d
      \<and> os_ReadFile (snd (Collect_go sample_sys mock_Collector sample_world))
          [''tmp'', ''mock.last-run''] = Inr ''1''
      \<and> fst (GetLastRun sample_sys mock_Collector
            (snd (Collect_go sample_sys mock_Collector sample_world))) = Inr 1
      \<and> Unix sample_world \<le> 1
      \<and> Unix (snd (Collect_go sample_sys mock_Collector sample_world)) = 1
      \<and> lookup (snd (Collect_go sample_sys mock_Collector sample_world)) [''etc'', ''mock.toml'']
          = Some (File mock_toml)"
    by (simp only: recfile unix digits kept)
  txt \<open>The record cannot be written.\<close>
  define v1 where "v1 = snd (generateCollectionDirectory sample_sys mock_Collector locked_world)"
  define v2 where "v2 = snd (process sample_sys ''/bin/true'' [] ?env v1)"
  have "fst (generateCollectionDirectory sample_sys mock_Collector locked_world) = Inr ?d"
    by code_simp
  then have gen': "generateCollectionDirectory sample_sys mock_Collector locked_world = (Inr ?d, v1)"
    by (simp add: prod_eq_iff v1_def)
  have "fst (process sample_sys ''/bin/true'' [] ?env v1) = (Exit 0, [])"
    unfolding v1_def by code_simp
  then have ran': "process sample_sys ''/bin/true'' [] ?env v1 = ((Exit 0, []), v2)"
    by (simp add: prod_eq_iff v2_def)
  have refused: "fst (SetLastRun sample_sys mock_Collector v2) =
      Some (PathError EACCES [''tmp'', ''mock.last-run''])"
    unfolding v2_def v1_def by code_simp
  have quiet: "logged v2 = []"
    unfolding v2_def v1_def by code_simp
  from Collect_records_last_run [OF split name gen' ran'] refused
  have "fst (Collect_go sample_sys mock_Collector locked_world) = Inr ?d
      \<and> logged (snd (Collect_go sample_sys mock_Collector locked_world)) =
          logged v2 @ [Error_cannot_update_collection_timestamp (Meta_ID mock_Collector)
                  (PathError EACCES [''tmp'', ''mock.last-run''])]"
    by blast
  then have two: "fst (Collect_go sample_sys mock_Collector locked_world) = Inr ?d
      \<and> logged (snd (Collect_go sample_sys mock_Collector locked_world)) =
       [Error_cannot_update_collection_timestamp ''mock''
          (PathError EACCES [''tmp'', ''mock.last-run''])]"
    by (simp add: quiet mock_Collector_def)
  from one two show ?thesis by simp
qed

text \<open>
  C5 as it is written fails in three ways. Where the record may not be written, the
  collection succeeds and the lookup finds no record; where the device is full, the
  collection succeeds, and the record of the run before, which the lookup has returned
  until then, is lost. The time that is recorded is cut to whole seconds: a collection
  that starts at 1.5 seconds records the time 1, which is before its start. And where the
  clock is set back while the command runs, the time recorded is before the second in
  which the collection has started.
\<close>

theorem Collect_records_last_run_counterexample:
  "fst (Collect_go sample_sys mock_Collector locked_world) = Inr [''tmp'', ''mock-1'']
   \<and> fst (GetLastRun sample_sys mock_Collector
            (snd (Collect_go sample_sys mock_Collector locked_world))) =
       Inl (PathError ENOENT [''tmp'', ''mock.last-run''])
   \<and> fst (GetLastRun sample_sys mock_Collector full_world) = Inr 7
   \<and> fst (Collect_go sample_sys mock_Collector full_world) = Inr [''tmp'', ''mock-1'']
   \<and> os_ReadFile (snd (Collect_go sample_sys mock_Collector full_world))
        [''tmp'', ''mock.last-run''] = Inr []
   \<and> isl (fst (GetLastRun sample_sys mock_Collector
                 (snd (Collect_go sample_sys mock_Collector full_world))))
   \<and> fst (Collect_go sample_sys mock_Collector sample_world) = Inr [''tmp'', ''mock-1'']
   \<and> fst (GetLastRun sample_sys mock_Collector
            (snd (Collect_go sample_sys mock_Collector sample_world))) = Inr 1
   \<and> 1 * 1000000000 < clock sample_world
   \<and> fst (Collect_go backstep_sys mock_Collector sample_world) = Inr [''tmp'', ''mock-1'']
   \<and> fst (GetLastRun backstep_sys mock_Collector
            (snd (Collect_go backstep_sys mock_Collector sample_world))) = Inr 0
   \<and> 0 < Unix sample_world"
  by code_simp

end
